theory Spec2Isabelle
  imports Complex_Main "HOL-Library.Sublist" "HOL-Library.AList"
begin

section \<open>Python values and helpers\<close>

text \<open>
  Exceptions that leave a function are values: a function that can raise returns
  \<open>py_error + 'a\<close>, with \<open>Inl\<close> the exception.
\<close>

datatype py_error = IndexError | TypeError | ValueError string | MailError

text \<open>
  \<open>str.replace(old, new)\<close> for a non-empty \<open>old\<close>: leftmost, non-overlapping
  occurrences. The counter is the number of characters of a matched occurrence that
  are still to be skipped.
\<close>

fun replace_from :: "string \<Rightarrow> string \<Rightarrow> nat \<Rightarrow> string \<Rightarrow> string" where
  "replace_from old new k [] = []"
| "replace_from old new (Suc k) (c # cs) = replace_from old new k cs"
| "replace_from old new 0 (c # cs) =
     (if prefix old (c # cs) then new @ replace_from old new (length old - 1) cs
      else c # replace_from old new 0 cs)"

definition replace :: "string \<Rightarrow> string \<Rightarrow> string \<Rightarrow> string" where
  "replace s old new = replace_from old new 0 s"

text \<open>\<open>str(n)\<close> for an integer: decimal digits, with a minus sign when negative.\<close>

definition digit_char :: "nat \<Rightarrow> char" where
  "digit_char n = ''0123456789'' ! (n mod 10)"

function str_nat :: "nat \<Rightarrow> string" where
  "str_nat n = (if n < 10 then [digit_char n] else str_nat (n div 10) @ [digit_char n])"
  by pat_completeness auto
termination
  by (relation "measure id") auto

declare str_nat.simps [simp del]

definition str_int :: "int \<Rightarrow> string" where
  "str_int i = (if i < 0 then CHR ''-'' # str_nat (nat (- i)) else str_nat (nat i))"

text \<open>
  \<open>s.split(sep)\<close> for a one-character separator, \<open>s.strip()\<close> and the whitespace test
  behind it (the whitespace code points below 256), and \<open>s[:n]\<close> as \<open>take n s\<close>.
\<close>

fun split_on :: "char \<Rightarrow> string \<Rightarrow> string list" where
  "split_on sep [] = [[]]"
| "split_on sep (c # cs) =
     (if c = sep then [] # split_on sep cs
      else (case split_on sep cs of [] \<Rightarrow> [[c]] | w # ws \<Rightarrow> (c # w) # ws))"

definition py_isspace :: "char \<Rightarrow> bool" where
  "py_isspace c \<longleftrightarrow> (of_char c :: nat) \<in> {9, 10, 11, 12, 13, 28, 29, 30, 31, 32, 133, 160}"

definition strip :: "string \<Rightarrow> string" where
  "strip s = rev (dropWhile py_isspace (rev (dropWhile py_isspace s)))"

text \<open>
  \<open>round(x)\<close> rounds halves to the even neighbour; \<open>round(x, n)\<close> does so at the
  \<open>n\<close>-th decimal; \<open>format_2f x\<close> is the number that the text \<open>f"{x:.2f}"\<close> denotes.
\<close>

definition py_round :: "real \<Rightarrow> int" where
  "py_round x =
     (let f = \<lfloor>x\<rfloor>; d = x - of_int f
      in if d < 1 / 2 then f else if d > 1 / 2 then f + 1 else if even f then f else f + 1)"

definition round_ndigits :: "real \<Rightarrow> nat \<Rightarrow> real" where
  "round_ndigits x n = of_int (py_round (x * 10 ^ n)) / 10 ^ n"

definition format_2f :: "real \<Rightarrow> real" where
  "format_2f x = round_ndigits x 2"

text \<open>
  A \<open>datetime\<close> value, its comparison, and the two renderings the code uses. Parsing
  is the library's: \<open>strptime s fmt\<close> is a parameter of every function that parses,
  with \<open>None\<close> for the \<open>ValueError\<close> of a text that does not match the format.
\<close>

record datetime =
  dt_year :: nat
  dt_month :: nat
  dt_day :: nat
  dt_hour :: nat
  dt_minute :: nat
  dt_second :: nat

type_synonym strptime = "string \<Rightarrow> string \<Rightarrow> datetime option"

definition date_less :: "datetime \<Rightarrow> datetime \<Rightarrow> bool" where
  "date_less a b \<longleftrightarrow>
     dt_year a < dt_year b \<or> (dt_year a = dt_year b \<and>
       (dt_month a < dt_month b \<or> (dt_month a = dt_month b \<and> dt_day a < dt_day b)))"

definition same_date :: "datetime \<Rightarrow> datetime \<Rightarrow> bool" where
  "same_date a b \<longleftrightarrow> dt_year a = dt_year b \<and> dt_month a = dt_month b \<and> dt_day a = dt_day b"

definition time_less :: "datetime \<Rightarrow> datetime \<Rightarrow> bool" where
  "time_less a b \<longleftrightarrow>
     dt_hour a < dt_hour b \<or> (dt_hour a = dt_hour b \<and>
       (dt_minute a < dt_minute b \<or> (dt_minute a = dt_minute b \<and> dt_second a < dt_second b)))"

definition dt_less :: "datetime \<Rightarrow> datetime \<Rightarrow> bool" where
  "dt_less a b \<longleftrightarrow> date_less a b \<or> (same_date a b \<and> time_less a b)"

definition two_digits :: "nat \<Rightarrow> string" where
  "two_digits n = [digit_char (n div 10), digit_char n]"

definition four_digits :: "nat \<Rightarrow> string" where
  "four_digits n = two_digits (n div 100) @ two_digits n"

definition strftime_dmY :: "datetime \<Rightarrow> string" where
  "strftime_dmY d = two_digits (dt_day d) @ ''/'' @ two_digits (dt_month d) @ ''/'' @ four_digits (dt_year d)"

definition strftime_HM :: "datetime \<Rightarrow> string" where
  "strftime_HM d = two_digits (dt_hour d) @ '':'' @ two_digits (dt_minute d)"

section \<open>The database\<close>

text \<open>
  \<open>dbconnection.py\<close> reads and writes the tables of the legacy database. A row of
  \<open>Clublist\<close> is a member, with its five \<open>Book_n\<close> and five \<open>Week_n\<close> columns in
  order; a row of \<open>Bookfile\<close> is one start time of one date with one
  \<open>PlayerNo_k\<close>/\<open>PlayName_k\<close> column pair per court. Columns are addressed by their
  name, as the SQL text does; \<open>None\<close> is SQL NULL. \<open>connected\<close> says whether
  \<open>get_db_connection()\<close> returns a connection.
\<close>

record member =
  Mem_No :: int
  First :: string
  Surname :: string
  CellPhone :: string
  E_Mail_Adr :: "string option"
  S_Credit :: "real option"
  Book :: "int option list"
  Week :: "int option list"

record book_row =
  StartTime1 :: string
  PlayerNo :: "string \<Rightarrow> int option"
  PlayName :: "string \<Rightarrow> string option"

text \<open>
  \<open>Courts\<close> holds the rows that the query of \<open>get_court_rates_per_minute\<close> returns
  (the description filter is applied by the database), each with its five
  \<open>RATEPMINn\<close>, \<open>IBOOKINGn\<close> and \<open>ICANCELn\<close> columns in order. \<open>Periods\<close> holds the
  rows that the query of \<open>get_periods\<close> returns. Amounts are real numbers: the binary
  rounding of Python's floats is not modelled.
\<close>

record court_row =
  CourtDesc :: string
  RATEPMIN :: "real option list"
  IBOOKING :: "real option list"
  ICANCEL :: "real option list"

record period =
  p_id :: int
  p_description :: string
  p_color :: int

record database =
  connected :: bool
  Clublist :: "member list"
  Bookfile :: "book_row list"
  Courts :: "court_row list"
  Periods :: "period list"

text \<open>
  \<open>get_squash_members_profile(username=mem_no)\<close> for a member number that is truthy:
  the first row of \<open>Clublist\<close> with that \<open>Mem_No\<close>, \<open>None\<close> when there is no connection
  or no such row. \<open>credit\<close> is \<open>S_Credit\<close>, NULL read as 0, written with two decimals
  (the callers read the text back with \<open>float\<close>).
\<close>

record profile =
  surname :: string
  first_name :: string
  member_no :: int
  cell_phone :: string
  email :: "string option"
  credit :: real

definition profile_of :: "member \<Rightarrow> profile" where
  "profile_of m = \<lparr> surname = Surname m, first_name = First m, member_no = Mem_No m,
     cell_phone = CellPhone m, email = E_Mail_Adr m,
     credit = format_2f (case S_Credit m of None \<Rightarrow> 0 | Some c \<Rightarrow> c) \<rparr>"

definition get_squash_members_profile :: "int \<Rightarrow> database \<Rightarrow> profile option" where
  "get_squash_members_profile username db =
     (if \<not> connected db then None
      else map_option profile_of (find (\<lambda>m. Mem_No m = username) (Clublist db)))"

section \<open>Booking ledger\<close>

datatype booking_status = Success | Already_booked | Error string

text \<open>The empty sentinels of the reserve statement: NULL, -9 and 0.\<close>

definition empty_cell :: "int option \<Rightarrow> bool" where
  "empty_cell v \<longleftrightarrow> v = None \<or> v = Some (- 9) \<or> v = Some 0"

text \<open>
  The single \<open>UPDATE [Bookfile] SET [col] = ?, [name_col] = ? WHERE [StartTime1] = ? AND
  ([col] IS NULL OR [col] = -9 OR [col] = 0)\<close> of \<open>update_internet_bookings\<close>: every row
  is tested and written in the same statement.
\<close>

definition reserve_where :: "string \<Rightarrow> string \<Rightarrow> book_row \<Rightarrow> bool" where
  "reserve_where start_time_value player_no_col r \<longleftrightarrow>
     StartTime1 r = start_time_value \<and> empty_cell (PlayerNo r player_no_col)"

definition reserve_set :: "string \<Rightarrow> string \<Rightarrow> int \<Rightarrow> string \<Rightarrow> book_row \<Rightarrow> book_row" where
  "reserve_set player_no_col play_name_col mem_no player_name r =
     r\<lparr> PlayerNo := (PlayerNo r)(player_no_col := Some mem_no),
        PlayName := (PlayName r)(play_name_col := Some player_name) \<rparr>"

definition update_internet_bookings ::
  "string \<Rightarrow> int \<Rightarrow> string \<Rightarrow> string \<Rightarrow> database \<Rightarrow> (py_error + booking_status) \<times> database" where
  "update_internet_bookings date_container mem_no player_no_col selected_time db =
     (let start_time_value = date_container @ '' '' @ selected_time @ '':00'';
          play_name_col = replace player_no_col ''PlayerNo'' ''PlayName''
      in case get_squash_members_profile mem_no db of
           None \<Rightarrow> (Inr (Error ''member profile missing''), db)
         | Some member_profile \<Rightarrow>
             (case first_name member_profile of
                [] \<Rightarrow> (Inl IndexError, db)
              | c # _ \<Rightarrow>
                  (let player_name = [c] @ '' '' @ surname member_profile in
                   if \<not> connected db then (Inr (Error ''connection failed''), db)
                   else
                     (let rowcount = length (filter (reserve_where start_time_value player_no_col) (Bookfile db));
                          rows = map (\<lambda>r. if reserve_where start_time_value player_no_col r
                                           then reserve_set player_no_col play_name_col mem_no player_name r
                                           else r) (Bookfile db)
                      in (Inr (if rowcount > 0 then Success else Already_booked),
                          db\<lparr> Bookfile := rows \<rparr>)))))"

text \<open>
  \<open>delete_internet_booking\<close>: the single \<open>UPDATE [Bookfile] SET [col] = NULL,
  [name_col] = NULL WHERE [StartTime1] = ? AND [col] = ?\<close>; it returns whether a row
  was changed.
\<close>

definition release_where :: "string \<Rightarrow> string \<Rightarrow> int \<Rightarrow> book_row \<Rightarrow> bool" where
  "release_where start_time1 player_no_column mem_no r \<longleftrightarrow>
     StartTime1 r = start_time1 \<and> PlayerNo r player_no_column = Some mem_no"

definition release_set :: "string \<Rightarrow> string \<Rightarrow> book_row \<Rightarrow> book_row" where
  "release_set player_no_column play_name_column r =
     r\<lparr> PlayerNo := (PlayerNo r)(player_no_column := None),
        PlayName := (PlayName r)(play_name_column := None) \<rparr>"

definition delete_internet_booking ::
  "string \<Rightarrow> int \<Rightarrow> string \<Rightarrow> database \<Rightarrow> bool \<times> database" where
  "delete_internet_booking start_time1 mem_no player_no_column db =
     (let play_name_column = replace player_no_column ''PlayerNo'' ''PlayName'' in
      if \<not> connected db then (False, db)
      else
        (let rowcount = length (filter (release_where start_time1 player_no_column mem_no) (Bookfile db));
             rows = map (\<lambda>r. if release_where start_time1 player_no_column mem_no r
                              then release_set player_no_column play_name_column r
                              else r) (Bookfile db)
         in (rowcount > 0, db\<lparr> Bookfile := rows \<rparr>)))"

section \<open>Financial adjuster\<close>

text \<open>
  \<open>update_squash_member_profile\<close>: one \<open>UPDATE Clublist ... WHERE [Mem_No] = ?\<close>; it
  returns whether a row was matched.
\<close>

definition update_squash_member_profile ::
  "int \<Rightarrow> string \<Rightarrow> string \<Rightarrow> string \<Rightarrow> string option \<Rightarrow> real \<Rightarrow> database \<Rightarrow> bool \<times> database" where
  "update_squash_member_profile memno fst_name lst_name cell mail cred db =
     (if \<not> connected db then (False, db)
      else (\<exists>m \<in> set (Clublist db). Mem_No m = memno,
            db\<lparr> Clublist := map (\<lambda>m. if Mem_No m = memno
                   then m\<lparr> First := fst_name, Surname := lst_name, CellPhone := cell,
                           E_Mail_Adr := mail, S_Credit := Some cred \<rparr>
                   else m) (Clublist db) \<rparr>))"

text \<open>
  \<open>get_court_rates_per_minute\<close>: per court description the non-zero, non-NULL rates
  (rounded to four decimals), booking costs and cancellation fees, in column order. A
  court with none of them is left out; a repeated description overwrites in place.
\<close>

record court_costs =
  rates :: "real list"
  bookings :: "real list"
  cancellations :: "real list"

definition valid_values :: "real option list \<Rightarrow> real list" where
  "valid_values xs = concat (map (\<lambda>v. case v of None \<Rightarrow> [] | Some x \<Rightarrow> if x = 0 then [] else [x]) xs)"

definition add_court :: "(string \<times> court_costs) list \<Rightarrow> court_row \<Rightarrow> (string \<times> court_costs) list" where
  "add_court court_data row =
     (let valid_rates = map (\<lambda>r. round_ndigits r 4) (valid_values (RATEPMIN row));
          valid_bookings = valid_values (IBOOKING row);
          valid_cancellations = valid_values (ICANCEL row)
      in if valid_rates \<noteq> [] \<or> valid_bookings \<noteq> [] \<or> valid_cancellations \<noteq> []
         then AList.update (CourtDesc row)
                \<lparr> rates = valid_rates, bookings = valid_bookings, cancellations = valid_cancellations \<rparr>
                court_data
         else court_data)"

definition get_court_rates_per_minute :: "database \<Rightarrow> (string \<times> court_costs) list" where
  "get_court_rates_per_minute db = (if \<not> connected db then [] else foldl add_court [] (Courts db))"

definition get_periods :: "database \<Rightarrow> period list" where
  "get_periods db = (if \<not> connected db then [] else Periods db)"

text \<open>
  The cost lookup of \<open>calculated_internet_bookings\<close>: the loop over the courts takes
  element 0 of the court's \<open>bookings\<close> (or \<open>cancellations\<close>) list and stops at the first
  cost that is not \<open>None\<close>. The lists hold no \<open>None\<close>, so the loop stops at the first
  court, and an empty list there raises \<open>IndexError\<close>.
\<close>

fun lookup_cost :: "string \<Rightarrow> (string \<times> court_costs) list \<Rightarrow> py_error + real option" where
  "lookup_cost ctype [] = Inr None"
| "lookup_cost ctype ((desc, cost_data) # court_data) =
     (if ctype = ''IBOOKING'' then
        (case bookings cost_data of [] \<Rightarrow> Inl IndexError | c # _ \<Rightarrow> Inr (Some c))
      else if ctype = ''ICANCEL'' then
        (case cancellations cost_data of [] \<Rightarrow> Inl IndexError | c # _ \<Rightarrow> Inr (Some c))
      else lookup_cost ctype court_data)"

datatype http_method = GET | POST

text \<open>The JSON payload of a successful adjustment; its amounts are written with two decimals.\<close>

record financial_data =
  cost_type :: string
  cost :: real
  current_credit :: real
  updated_credit :: real

datatype fin_response = Fin_ok financial_data | Fin_error nat string

definition calculated_internet_bookings ::
  "http_method \<Rightarrow> int option \<Rightarrow> string \<Rightarrow> database \<Rightarrow> fin_response \<times> database" where
  "calculated_internet_bookings method mem ctype db =
     (case mem of
        None \<Rightarrow> (Fin_error 400 ''Invalid input data.'', db)
      | Some memno \<Rightarrow>
          if memno = 0 \<or> ctype \<notin> {''IBOOKING'', ''ICANCEL''}
          then (Fin_error 400 ''Invalid input data.'', db)
          else
            (case get_squash_members_profile memno db of
               None \<Rightarrow> (Fin_error 404 ''Member profile not found.'', db)
             | Some member_profile \<Rightarrow>
                 (case lookup_cost ctype (get_court_rates_per_minute db) of
                    Inl e \<Rightarrow> (Fin_error 500 ''exception'', db)
                  | Inr None \<Rightarrow> (Fin_error 404 ''Cost not found.'', db)
                  | Inr (Some c) \<Rightarrow>
                      (let cur = credit member_profile;
                           upd = cur - c;
                           payload = \<lparr> cost_type = ctype, cost = format_2f c,
                                       current_credit = format_2f cur, updated_credit = format_2f upd \<rparr>
                       in if method = POST then
                            (case update_squash_member_profile memno (first_name member_profile)
                                    (surname member_profile) (cell_phone member_profile)
                                    (email member_profile) upd db of
                               (success, db') \<Rightarrow>
                                 if \<not> success then (Fin_error 500 ''Failed to update credit.'', db')
                                 else (Fin_ok payload, db'))
                          else (Fin_ok payload, db)))))"

text \<open>
  \<open>add_booking_financials\<close> and \<open>delete_booking_financials\<close> post to the endpoint above
  and then store the \<open>updated_credit\<close> of the answer (a two-decimal text) once more.
\<close>

definition post_financials :: "string \<Rightarrow> int \<Rightarrow> database \<Rightarrow> (string + financial_data) \<times> database" where
  "post_financials ctype player_no db =
     (case calculated_internet_bookings POST (Some player_no) ctype db of
        (Fin_error code msg, db1) \<Rightarrow> (Inl ''Financial API failed.'', db1)
      | (Fin_ok fd, db1) \<Rightarrow>
          (case get_squash_members_profile player_no db1 of
             None \<Rightarrow> (Inr fd, db1)
           | Some member_profile \<Rightarrow>
               (case update_squash_member_profile player_no (first_name member_profile)
                       (surname member_profile) (cell_phone member_profile)
                       (email member_profile) (updated_credit fd) db1 of
                  (update_success, db2) \<Rightarrow>
                    if \<not> update_success then (Inl ''Failed to update S_Credit in the database.'', db2)
                    else (Inr fd, db2))))"

definition add_booking_financials :: "int \<Rightarrow> database \<Rightarrow> (string + financial_data) \<times> database" where
  "add_booking_financials player_no db = post_financials ''IBOOKING'' player_no db"

definition delete_booking_financials :: "int \<Rightarrow> int \<Rightarrow> database \<Rightarrow> (string + financial_data) \<times> database" where
  "delete_booking_financials player_no pid db = post_financials ''ICANCEL'' player_no db"

text \<open>
  \<open>get_court_booking_costs\<close>, the display endpoint: per period the rate of the first
  court at index \<open>id - 1\<close> (a negative index counts from the end, as Python's does),
  times 45 minutes, rounded to a whole unit; \<open>None\<close> where the first court has no such
  rate.
\<close>

definition rate_for :: "real list \<Rightarrow> int \<Rightarrow> py_error + real option" where
  "rate_for rs rate_index =
     (if rate_index < int (length rs) then
        (if 0 \<le> rate_index then Inr (Some (rs ! nat rate_index))
         else if - int (length rs) \<le> rate_index then Inr (Some (rs ! nat (int (length rs) + rate_index)))
         else Inl IndexError)
      else Inr None)"

fun period_costs :: "real list \<Rightarrow> period list \<Rightarrow> py_error + (string \<times> int option) list" where
  "period_costs rs [] = Inr []"
| "period_costs rs (p # ps) =
     (case rate_for rs (p_id p - 1) of
        Inl e \<Rightarrow> Inl e
      | Inr rate_per_min \<Rightarrow>
          (case period_costs rs ps of
             Inl e \<Rightarrow> Inl e
           | Inr costs \<Rightarrow>
               Inr ((p_description p, map_option (\<lambda>r. py_round (r * 45)) rate_per_min) # costs)))"

datatype costs_response = Costs_ok "(string \<times> int option) list" | Costs_error nat

definition get_court_booking_costs :: "database \<Rightarrow> costs_response" where
  "get_court_booking_costs db =
     (let court_rates = get_court_rates_per_minute db; periods = get_periods db in
      case court_rates of
        [] \<Rightarrow> Costs_error 404
      | (desc, first_court) # others \<Rightarrow>
          if periods = [] then Costs_error 404
          else (case period_costs (rates first_court) periods of
                  Inl e \<Rightarrow> Costs_error 500
                | Inr costs \<Rightarrow> Costs_ok costs))"

section \<open>Booking limit evaluator\<close>

text \<open>
  \<open>get_booking_limitations\<close>: the member's \<open>Book_n\<close> and \<open>Week_n\<close> values that are
  neither NULL nor zero nor negative, in column order.
\<close>

record booking_limitations =
  daily_limits :: "int list"
  weekly_limits :: "int list"

definition positive_values :: "int option list \<Rightarrow> int list" where
  "positive_values xs = concat (map (\<lambda>v. case v of None \<Rightarrow> [] | Some x \<Rightarrow> if x \<noteq> 0 \<and> x > 0 then [x] else []) xs)"

definition get_booking_limitations :: "int \<Rightarrow> database \<Rightarrow> booking_limitations option" where
  "get_booking_limitations memno db =
     (if \<not> connected db then None
      else map_option (\<lambda>row. \<lparr> daily_limits = positive_values (Book row),
                               weekly_limits = positive_values (Week row) \<rparr>)
             (find (\<lambda>m. Mem_No m = memno) (Clublist db)))"

text \<open>
  The checks read two query results: \<open>bookings_data\<close>, the rows of
  \<open>get_booked_players_memno\<close> (date, start time and the comma-separated occupants of
  the courts), and \<open>period_data\<close>, the rows of \<open>get_period_ids_by_date_range\<close> (date,
  time and the period id of each court). Both are inputs of the model.
\<close>

record booking =
  Date :: string
  StartTime :: string
  PlayerNos :: string

record period_entry =
  pe_date :: string
  pe_time :: string
  pe_periods :: "int list"

record aligned_limit =
  limit :: int
  period_id :: int
  period_description :: string
  bookings_count :: int

definition align_limits :: "int list \<Rightarrow> period list \<Rightarrow> aligned_limit list" where
  "align_limits limits periods =
     map (\<lambda>(l, p). \<lparr> limit = l, period_id = p_id p, period_description = p_description p,
                     bookings_count = 0 \<rparr>) (zip limits periods)"

text \<open>The innermost loop: the first aligned entry of the period is incremented, then \<open>break\<close>.\<close>

fun increment_count :: "int \<Rightarrow> aligned_limit list \<Rightarrow> aligned_limit list" where
  "increment_count pid [] = []"
| "increment_count pid (l # ls) =
     (if period_id l = pid then l\<lparr> bookings_count := bookings_count l + 1 \<rparr> # ls
      else l # increment_count pid ls)"

text \<open>\<open>for idx, period_id in enumerate(period_entry["periods"])\<close>.\<close>

fun count_slots :: "string \<Rightarrow> string list \<Rightarrow> nat \<Rightarrow> int list \<Rightarrow> aligned_limit list \<Rightarrow> aligned_limit list" where
  "count_slots mem_str player_nos idx [] aligned = aligned"
| "count_slots mem_str player_nos idx (pid # pids) aligned =
     count_slots mem_str player_nos (Suc idx) pids
       (if idx < length player_nos \<and> player_nos ! idx \<noteq> ''None'' \<and> mem_str = player_nos ! idx
        then increment_count pid aligned else aligned)"

text \<open>\<open>for period_entry in period_data\<close>, for one booking row and its formatted time.\<close>

fun count_period_entries ::
  "int \<Rightarrow> booking \<Rightarrow> string \<Rightarrow> period_entry list \<Rightarrow> aligned_limit list \<Rightarrow> aligned_limit list" where
  "count_period_entries memno b formatted_time [] aligned = aligned"
| "count_period_entries memno b formatted_time (pe # period_data) aligned =
     count_period_entries memno b formatted_time period_data
       (if pe_date pe = Date b \<and> pe_time pe = formatted_time
        then count_slots (str_int memno) (map strip (split_on CHR '','' (PlayerNos b))) 0
               (pe_periods pe) aligned
        else aligned)"

text \<open>
  The loop over the booking rows of the daily check. A row whose start time does not
  parse is skipped; so is a row that lies before \<open>now\<close> when the checked date is
  today's date.
\<close>

fun daily_count_bookings ::
  "strptime \<Rightarrow> datetime \<Rightarrow> int \<Rightarrow> string \<Rightarrow> period_entry list \<Rightarrow> booking list
     \<Rightarrow> aligned_limit list \<Rightarrow> aligned_limit list" where
  "daily_count_bookings strptime now memno date period_data [] aligned = aligned"
| "daily_count_bookings strptime now memno date period_data (b # bookings_data) aligned =
     daily_count_bookings strptime now memno date period_data bookings_data
       (case strptime (StartTime b) ''%d/%m/%Y %H:%M:%S'' of
          None \<Rightarrow> aligned
        | Some booking_datetime \<Rightarrow>
            if dt_less booking_datetime now \<and> date = strftime_dmY now then aligned
            else count_period_entries memno b (strftime_HM booking_datetime) period_data aligned)"

text \<open>The loop over the booking rows of the weekly check: no row is skipped for its time.\<close>

fun weekly_count_bookings ::
  "strptime \<Rightarrow> int \<Rightarrow> period_entry list \<Rightarrow> booking list
     \<Rightarrow> aligned_limit list \<Rightarrow> aligned_limit list" where
  "weekly_count_bookings strptime memno period_data [] aligned = aligned"
| "weekly_count_bookings strptime memno period_data (b # bookings_data) aligned =
     weekly_count_bookings strptime memno period_data bookings_data
       (case strptime (StartTime b) ''%d/%m/%Y %H:%M:%S'' of
          None \<Rightarrow> aligned
        | Some booking_datetime \<Rightarrow>
            count_period_entries memno b (strftime_HM booking_datetime) period_data aligned)"

datatype limit_response =
    Http_error nat string
  | No_bookings
  | Limit_exceeded "aligned_limit list"
  | Within_bounds "aligned_limit list"

definition exceeded_periods :: "aligned_limit list \<Rightarrow> aligned_limit list" where
  "exceeded_periods aligned = filter (\<lambda>l. bookings_count l > limit l) aligned"

text \<open>
  \<open>check_daily_booking_limits\<close>: \<open>mem\<close> is the session's member number, \<open>date\<close> the
  query parameter. \<open>No_bookings\<close> and \<open>Within_bounds\<close> are answered with status 200,
  \<open>Limit_exceeded\<close> with 403.
\<close>

definition check_daily_booking_limits ::
  "strptime \<Rightarrow> datetime \<Rightarrow> int option \<Rightarrow> string option \<Rightarrow> booking list \<Rightarrow> period_entry list
     \<Rightarrow> database \<Rightarrow> limit_response" where
  "check_daily_booking_limits strptime now mem date_arg bookings_data period_data db =
     (case mem of
        None \<Rightarrow> Http_error 401 ''Member number not found in session. Please log in again.''
      | Some memno \<Rightarrow>
          if memno = 0 then Http_error 401 ''Member number not found in session. Please log in again.''
          else
            (case date_arg of
               None \<Rightarrow> Http_error 400 ''Missing date parameter.''
             | Some date \<Rightarrow>
                 if date = [] then Http_error 400 ''Missing date parameter.''
                 else if strptime date ''%d/%m/%Y'' = None
                 then Http_error 400 ''Invalid date format. Expected format: dd/MM/yyyy.''
                 else if bookings_data = [] then No_bookings
                 else
                   (case get_booking_limitations memno db of
                      None \<Rightarrow> Http_error 404 ''Daily booking limitations not found for this player.''
                    | Some lims \<Rightarrow>
                        if daily_limits lims = []
                        then Http_error 404 ''Daily booking limitations not found for this player.''
                        else
                          (let aligned_daily_limits =
                                 daily_count_bookings strptime now memno date period_data bookings_data
                                   (align_limits (daily_limits lims) (get_periods db))
                           in if exceeded_periods aligned_daily_limits \<noteq> []
                              then Limit_exceeded aligned_daily_limits
                              else Within_bounds aligned_daily_limits))))"

definition check_weekly_booking_limits ::
  "strptime \<Rightarrow> int option \<Rightarrow> string option \<Rightarrow> string option \<Rightarrow> booking list \<Rightarrow> period_entry list
     \<Rightarrow> database \<Rightarrow> limit_response" where
  "check_weekly_booking_limits strptime mem start_arg end_arg bookings_data period_data db =
     (case mem of
        None \<Rightarrow> Http_error 401 ''Member number not found in session. Please log in again.''
      | Some memno \<Rightarrow>
          if memno = 0 then Http_error 401 ''Member number not found in session. Please log in again.''
          else
            (case (start_arg, end_arg) of
               (Some start_date, Some end_date) \<Rightarrow>
                 if start_date = [] \<or> end_date = []
                 then Http_error 400 ''Missing start_date or end_date parameters.''
                 else
                   (case (strptime start_date ''%d/%m/%Y'', strptime end_date ''%d/%m/%Y'') of
                      (Some start_date_dt, Some end_date_dt) \<Rightarrow>
                        if dt_less end_date_dt start_date_dt
                        then Http_error 400 ''start_date cannot be after end_date.''
                        else if bookings_data = [] then No_bookings
                        else
                          (case get_booking_limitations memno db of
                             None \<Rightarrow> Http_error 404 ''Weekly booking limitations not found for this player.''
                           | Some lims \<Rightarrow>
                               if weekly_limits lims = []
                               then Http_error 404 ''Weekly booking limitations not found for this player.''
                               else
                                 (let aligned_weekly_limits =
                                        weekly_count_bookings strptime memno period_data bookings_data
                                          (align_limits (weekly_limits lims) (get_periods db))
                                  in if exceeded_periods aligned_weekly_limits \<noteq> []
                                     then Limit_exceeded aligned_weekly_limits
                                     else Within_bounds aligned_weekly_limits))
                    | _ \<Rightarrow> Http_error 400 ''Invalid date format. Expected format: dd/MM/yyyy.'')
             | _ \<Rightarrow> Http_error 400 ''Missing start_date or end_date parameters.''))"

text \<open>
  The counts in the words of the specification: a booking row that is counted
  contributes, for each period entry of its date and time, the period of every court
  whose occupant is the member. \<open>weekly_hits\<close> lists these periods for every row whose
  start time parses. \<open>daily_hits\<close> lists them for the rows that the daily check counts:
  a row is left out when its start time lies before \<open>now\<close> while the text of the
  requested date is today's date written \<open>dd/mm/yyyy\<close>. \<open>count_list hits p\<close> is the
  number of the member's counted bookings in period \<open>p\<close>.
\<close>

definition slot_hits :: "string \<Rightarrow> string list \<Rightarrow> nat \<Rightarrow> int list \<Rightarrow> int list" where
  "slot_hits mem_str player_nos start pids =
     map snd (filter (\<lambda>(idx, pid). idx < length player_nos \<and> player_nos ! idx \<noteq> ''None''
                                    \<and> mem_str = player_nos ! idx)
                (enumerate start pids))"

definition booking_hits :: "int \<Rightarrow> booking \<Rightarrow> string \<Rightarrow> period_entry list \<Rightarrow> int list" where
  "booking_hits memno b formatted_time period_data =
     concat (map (\<lambda>pe. if pe_date pe = Date b \<and> pe_time pe = formatted_time
                        then slot_hits (str_int memno) (map strip (split_on CHR '','' (PlayerNos b))) 0
                               (pe_periods pe)
                        else []) period_data)"

definition weekly_hits :: "strptime \<Rightarrow> int \<Rightarrow> period_entry list \<Rightarrow> booking list \<Rightarrow> int list" where
  "weekly_hits strptime memno period_data bookings_data =
     concat (map (\<lambda>b. case strptime (StartTime b) ''%d/%m/%Y %H:%M:%S'' of
                         None \<Rightarrow> []
                       | Some booking_datetime \<Rightarrow>
                           booking_hits memno b (strftime_HM booking_datetime) period_data)
               bookings_data)"

definition daily_hits ::
  "strptime \<Rightarrow> datetime \<Rightarrow> int \<Rightarrow> string \<Rightarrow> period_entry list \<Rightarrow> booking list \<Rightarrow> int list" where
  "daily_hits strptime now memno date period_data bookings_data =
     concat (map (\<lambda>b. case strptime (StartTime b) ''%d/%m/%Y %H:%M:%S'' of
                         None \<Rightarrow> []
                       | Some booking_datetime \<Rightarrow>
                           if dt_less booking_datetime now \<and> date = strftime_dmY now then []
                           else booking_hits memno b (strftime_HM booking_datetime) period_data)
               bookings_data)"

definition with_counts :: "int list \<Rightarrow> aligned_limit list \<Rightarrow> aligned_limit list" where
  "with_counts hits aligned =
     map (\<lambda>l. l\<lparr> bookings_count := bookings_count l + int (count_list hits (period_id l)) \<rparr>) aligned"

section \<open>Waiting list store\<close>

text \<open>
  The JSON file: a dictionary from date to a dictionary from time slot to the list of
  waiting entries. Python dictionaries keep insertion order, so each is an association
  list: \<open>d[k] = v\<close> is \<open>AList.update k v d\<close>, \<open>del d[k]\<close> is \<open>AList.delete k d\<close> and
  \<open>k in d\<close> is \<open>map_of d k \<noteq> None\<close>. Every mutation loads the whole file and saves
  the whole file; the functions below take the file's content and return the content
  after the call.
\<close>

record entry =
  player_id :: int
  wl_first_name :: string
  wl_last_name :: string
  email_address :: string
  status :: string

type_synonym time_slots = "(string \<times> entry list) list"
type_synonym waiting_list = "(string \<times> time_slots) list"

record session =
  sess_Mem_No :: "int option"
  sess_first_name :: "string option"
  sess_last_name :: "string option"

text \<open>
  \<open>cleanup_waiting_list\<close>: a date is kept when it parses and is not before today;
  a date that does not parse is dropped.
\<close>

definition cleanup_waiting_list :: "strptime \<Rightarrow> datetime \<Rightarrow> waiting_list \<Rightarrow> waiting_list" where
  "cleanup_waiting_list strptime now wl =
     filter (\<lambda>(date_str, slots).
               case strptime date_str ''%d/%m/%Y'' of
                 None \<Rightarrow> False
               | Some date_obj \<Rightarrow> \<not> date_less date_obj now) wl"

text \<open>
  \<open>get_member_email_and_memnumber(username=player_id)\<close> for a member number that is
  truthy: the e-mail address of the first row with that number.
\<close>

definition get_member_email_and_memnumber :: "int \<Rightarrow> database \<Rightarrow> string option option" where
  "get_member_email_and_memnumber username db =
     (if \<not> connected db then None
      else map_option E_Mail_Adr (find (\<lambda>m. Mem_No m = username) (Clublist db)))"

datatype wl_response =
    Wl_error nat string
  | Already_in_list
  | Added string
  | Removed

text \<open>
  \<open>add_to_waiting_list\<close>. Every \<open>ValueError\<close> raised in the body is answered with status
  400 by the handler; the \<open>finally\<close> block writes an audit row to the database and does
  not touch the file.
\<close>

definition add_to_waiting_list ::
  "strptime \<Rightarrow> datetime \<Rightarrow> session \<Rightarrow> string option \<Rightarrow> string option \<Rightarrow> database
     \<Rightarrow> waiting_list \<Rightarrow> wl_response \<times> waiting_list" where
  "add_to_waiting_list strptime now sess date_arg slot_arg db wl =
     (case sess_Mem_No sess of
        None \<Rightarrow> (Wl_error 400 ''Unauthorized: No session found.'', wl)
      | Some pid \<Rightarrow>
          (let fname = (case sess_first_name sess of None \<Rightarrow> ''Unknown'' | Some f \<Rightarrow> f);
               lname = (case sess_last_name sess of None \<Rightarrow> ''Unknown'' | Some l \<Rightarrow> l)
           in case (date_arg, slot_arg) of
                (Some date0, Some time_slot) \<Rightarrow>
                  if date0 = [] \<or> time_slot = []
                  then (Wl_error 400 ''Missing required fields: date or time_slot.'', wl)
                  else
                    (let date = (case strptime date0 ''%Y-%m-%d'' of
                                   Some d \<Rightarrow> strftime_dmY d | None \<Rightarrow> date0)
                     in case get_member_email_and_memnumber pid db of
                          None \<Rightarrow> (Wl_error 400 ''User information not found.'', wl)
                        | Some None \<Rightarrow> (Wl_error 400 ''Please update email address in My Profile.'', wl)
                        | Some (Some addr) \<Rightarrow>
                            if addr = [] \<or> strip addr = []
                            then (Wl_error 400 ''Please update email address in My Profile.'', wl)
                            else if count_list addr CHR ''@'' \<noteq> 1
                            then (Wl_error 400 ''Invalid email address format.'', wl)
                            else
                              (let cleaned = cleanup_waiting_list strptime now wl;
                                   slots = (case map_of cleaned date of None \<Rightarrow> [] | Some sl \<Rightarrow> sl);
                                   entries = (case map_of slots time_slot of None \<Rightarrow> [] | Some es \<Rightarrow> es)
                               in if \<exists>e \<in> set entries. player_id e = pid
                                  then (Already_in_list, cleaned)
                                  else (Added addr,
                                        AList.update date
                                          (AList.update time_slot
                                             (entries @ [\<lparr> player_id = pid, wl_first_name = fname,
                                                            wl_last_name = lname, email_address = addr,
                                                            status = ''active'' \<rparr>])
                                             slots)
                                          cleaned)))
              | _ \<Rightarrow> (Wl_error 400 ''Missing required fields: date or time_slot.'', wl)))"

text \<open>\<open>remove_from_waiting_list\<close>: member numbers are compared as texts.\<close>

definition remove_from_waiting_list ::
  "session \<Rightarrow> string option \<Rightarrow> string option \<Rightarrow> waiting_list \<Rightarrow> wl_response \<times> waiting_list" where
  "remove_from_waiting_list sess date_arg slot_arg wl =
     (case sess_Mem_No sess of
        None \<Rightarrow> (Wl_error 401 ''Unauthorized: No session found.'', wl)
      | Some pid \<Rightarrow>
          (case (date_arg, slot_arg) of
             (Some date, Some time_slot) \<Rightarrow>
               if date = [] \<or> time_slot = []
               then (Wl_error 400 ''Missing required fields: date or time_slot.'', wl)
               else
                 (case map_of wl date of
                    None \<Rightarrow> (Wl_error 404 ''Player not found in the waiting list for the specified time slot.'', wl)
                  | Some slots \<Rightarrow>
                      (case map_of slots time_slot of
                         None \<Rightarrow> (Wl_error 404 ''Player not found in the waiting list for the specified time slot.'', wl)
                       | Some entries \<Rightarrow>
                           (let updated_entries = filter (\<lambda>e. str_int (player_id e) \<noteq> str_int pid) entries;
                                slots' = (if updated_entries \<noteq> []
                                          then AList.update time_slot updated_entries slots
                                          else AList.delete time_slot slots)
                            in (Removed,
                                if slots' = [] then AList.delete date wl
                                else AList.update date slots' wl))))
           | _ \<Rightarrow> (Wl_error 400 ''Missing required fields: date or time_slot.'', wl)))"

text \<open>
  The shape that the store keeps in the file: no date with an empty dictionary of time
  slots, no time slot with an empty list of entries.
\<close>

definition wl_inv :: "waiting_list \<Rightarrow> bool" where
  "wl_inv wl \<longleftrightarrow> list_all (\<lambda>(date, slots). slots \<noteq> [] \<and> list_all (\<lambda>(time_slot, entries). entries \<noteq> []) slots) wl"

section \<open>Notification dispatcher\<close>

text \<open>
  \<open>send_booking_cancellation_email\<close> validates the date and the time and hands the
  message to the mail transport. \<open>mail_send recipient\<close> says whether the transport
  delivers to that recipient without raising.
\<close>

definition send_booking_cancellation_email ::
  "strptime \<Rightarrow> (string \<Rightarrow> bool) \<Rightarrow> string \<Rightarrow> string \<Rightarrow> string \<Rightarrow> string \<Rightarrow> py_error + unit" where
  "send_booking_cancellation_email strptime mail_send recipient F_Lastname date time_slot =
     (if strptime date ''%d/%m/%Y'' = None
      then Inl (ValueError ''Date format is invalid. Expected format: dd/mm/yyyy.'')
      else if strptime time_slot ''%H:%M'' = None
      then Inl (ValueError ''Time format is invalid. Expected format: HH:MM.'')
      else if mail_send recipient then Inr () else Inl MailError)"

text \<open>
  The loop over the waiting entries of the freed slot. It returns \<open>updated_entries\<close>
  and the recipients that were sent a message, both in the order of the entries.
\<close>

fun notify_entries ::
  "strptime \<Rightarrow> (string \<Rightarrow> bool) \<Rightarrow> string \<Rightarrow> string \<Rightarrow> int option \<Rightarrow> entry list
     \<Rightarrow> entry list \<times> string list" where
  "notify_entries strptime mail_send date time_slot canceling_player_id [] = ([], [])"
| "notify_entries strptime mail_send date time_slot canceling_player_id (e # es) =
     (case notify_entries strptime mail_send date time_slot canceling_player_id es of
        (updated_entries, sent) \<Rightarrow>
          if Some (player_id e) = canceling_player_id then (e # updated_entries, sent)
          else if email_address e \<noteq> [] \<and> wl_first_name e \<noteq> [] \<and> wl_last_name e \<noteq> [] then
            (case send_booking_cancellation_email strptime mail_send (email_address e)
                    (wl_first_name e) date time_slot of
               Inr u \<Rightarrow> (updated_entries, email_address e # sent)
             | Inl err \<Rightarrow> (e # updated_entries, sent))
          else (updated_entries, sent))"

text \<open>
  \<open>process_waiting_list_notifications\<close>. When \<open>updated_entries\<close> is not empty the
  source executes the two statements \<open>waiting_list\<close> and
  \<open>[date][time_slot] = updated_entries\<close>; the second indexes the one-element list
  \<open>[date]\<close> with a text and raises \<open>TypeError\<close> before the file is saved. The result is
  the exception raised (if any), the file's content and the recipients that were sent a
  message.
\<close>

definition process_waiting_list_notifications ::
  "strptime \<Rightarrow> (string \<Rightarrow> bool) \<Rightarrow> string \<Rightarrow> string \<Rightarrow> int option \<Rightarrow> waiting_list
     \<Rightarrow> py_error option \<times> waiting_list \<times> string list" where
  "process_waiting_list_notifications strptime mail_send date time_slot0 canceling_player_id wl =
     (let time_slot = take 5 time_slot0 in
      case map_of wl date of
        None \<Rightarrow> (None, wl, [])
      | Some slots \<Rightarrow>
          (case map_of slots time_slot of
             None \<Rightarrow> (None, wl, [])
           | Some entries \<Rightarrow>
               (case notify_entries strptime mail_send date time_slot canceling_player_id entries of
                  (updated_entries, sent) \<Rightarrow>
                    if updated_entries \<noteq> [] then (Some TypeError, wl, sent)
                    else (None, AList.update date (AList.delete time_slot slots) wl, sent))))"

section \<open>Cancellation workflow\<close>

text \<open>
  \<open>delete_booking\<close> from its step 2 on: \<open>date_formatted\<close> and \<open>selected_time\<close> are the
  date and the slot time that the handler has resolved from the request. The handler
  calls the notification step without a cancelling player and swallows any exception
  of that step.
\<close>

datatype delete_response = Delete_error nat string | Deleted financial_data

record app_state =
  st_db :: database
  st_waiting_list :: waiting_list
  st_sent :: "string list"

definition delete_booking ::
  "strptime \<Rightarrow> (string \<Rightarrow> bool) \<Rightarrow> string \<Rightarrow> string \<Rightarrow> string \<Rightarrow> int \<Rightarrow> int \<Rightarrow> app_state
     \<Rightarrow> delete_response \<times> app_state" where
  "delete_booking strptime mail_send date_formatted selected_time player_no_column player_no pid st =
     (let start_time1 = date_formatted @ '' '' @ selected_time @ '':00'' in
      case delete_internet_booking start_time1 player_no player_no_column (st_db st) of
        (success, db1) \<Rightarrow>
          if \<not> success
          then (Delete_error 404 ''Failed to delete booking. No matching record found.'',
                st\<lparr> st_db := db1 \<rparr>)
          else
            (case process_waiting_list_notifications strptime mail_send date_formatted selected_time
                    None (st_waiting_list st) of
               (raised, wl1, sent) \<Rightarrow>
                 (case delete_booking_financials player_no pid db1 of
                    (financial_result, db2) \<Rightarrow>
                      (case financial_result of
                         Inl msg \<Rightarrow> Delete_error 500 ''Booking deleted, but financial update failed.''
                       | Inr fd \<Rightarrow> Deleted fd,
                       \<lparr> st_db = db2, st_waiting_list = wl1, st_sent = st_sent st @ sent \<rparr>))))"

section \<open>Example data\<close>

text \<open>A small club, used to run the functions above on concrete inputs.\<close>

definition demo_member :: member where
  "demo_member = \<lparr> Mem_No = 7, First = ''Ann'', Surname = ''Lee'', CellPhone = ''081'',
     E_Mail_Adr = Some ''ann@example.org'', S_Credit = Some 100,
     Book = [Some 2, None, None, None, None], Week = [Some 4, None, None, None, None] \<rparr>"

definition demo_row :: book_row where
  "demo_row = \<lparr> StartTime1 = ''01/01/2030 10:00:00'',
     PlayerNo = (\<lambda>c. None)(''PlayerNo_1'' := Some (- 9), ''PlayerNo_2'' := Some 5),
     PlayName = (\<lambda>c. None)(''PlayName_2'' := Some ''B Roe'') \<rparr>"

definition demo_db :: database where
  "demo_db = \<lparr> connected = True, Clublist = [demo_member], Bookfile = [demo_row],
     Courts = [\<lparr> CourtDesc = ''VISIONS'', RATEPMIN = [Some 0.4444, None, None, None, None],
                 IBOOKING = [Some 10, None, None, None, None],
                 ICANCEL = [Some 5, None, None, None, None] \<rparr>],
     Periods = [\<lparr> p_id = 1, p_description = ''NORMAL'', p_color = 255 \<rparr>,
                \<lparr> p_id = 2, p_description = ''PEAK'', p_color = 65280 \<rparr>] \<rparr>"

text \<open>
  A parser for the few texts of the examples (\<open>strptime\<close> reads the date
  \<open>1/1/2030\<close> as it reads \<open>01/01/2030\<close>), a waiting list for 10:00 on 1 January 2030,
  and a mail transport that fails for one recipient.
\<close>

definition new_year :: "nat \<Rightarrow> nat \<Rightarrow> datetime" where
  "new_year h m = \<lparr> dt_year = 2030, dt_month = 1, dt_day = 1, dt_hour = h, dt_minute = m, dt_second = 0 \<rparr>"

definition demo_strptime :: strptime where
  "demo_strptime s fmt = map_of
     [((''01/01/2030'', ''%d/%m/%Y''), new_year 0 0),
      ((''1/1/2030'', ''%d/%m/%Y''), new_year 0 0),
      ((''10:00'', ''%H:%M''),
         \<lparr> dt_year = 1900, dt_month = 1, dt_day = 1, dt_hour = 10, dt_minute = 0, dt_second = 0 \<rparr>),
      ((''01/01/2030 08:00:00'', ''%d/%m/%Y %H:%M:%S''), new_year 8 0),
      ((''01/01/2030 10:00:00'', ''%d/%m/%Y %H:%M:%S''), new_year 10 0),
      ((''01/01/2030 10:45:00'', ''%d/%m/%Y %H:%M:%S''), new_year 10 45),
      ((''01/01/2030 11:30:00'', ''%d/%m/%Y %H:%M:%S''), new_year 11 30)]
     (s, fmt)"

definition entry_A :: entry where
  "entry_A = \<lparr> player_id = 11, wl_first_name = ''Al'', wl_last_name = ''Abe'',
     email_address = ''al@example.org'', status = ''active'' \<rparr>"

definition entry_B :: entry where
  "entry_B = \<lparr> player_id = 12, wl_first_name = ''Bo'', wl_last_name = ''Bee'',
     email_address = ''bo@example.org'', status = ''active'' \<rparr>"

definition entry_M :: entry where
  "entry_M = \<lparr> player_id = 7, wl_first_name = ''Ann'', wl_last_name = ''Lee'',
     email_address = ''ann@example.org'', status = ''active'' \<rparr>"

definition mail_fails_for_A :: "string \<Rightarrow> bool" where
  "mail_fails_for_A recipient \<longleftrightarrow> recipient \<noteq> ''al@example.org''"

definition mail_delivers :: "string \<Rightarrow> bool" where
  "mail_delivers recipient \<longleftrightarrow> True"

definition booked_db :: database where
  "booked_db = demo_db\<lparr> Bookfile :=
     [demo_row\<lparr> PlayerNo := (PlayerNo demo_row)(''PlayerNo_1'' := Some 7),
                PlayName := (PlayName demo_row)(''PlayName_1'' := Some ''A Lee'') \<rparr>] \<rparr>"

text \<open>
  Booking rows of 1 January 2030 in which member 7 holds the first court, and the
  period entries of that day: both courts are in period 1 at every time.
\<close>

definition row_0800 :: booking where
  "row_0800 = \<lparr> Date = ''01/01/2030'', StartTime = ''01/01/2030 08:00:00'', PlayerNos = ''7, None'' \<rparr>"

definition row_1000 :: booking where
  "row_1000 = \<lparr> Date = ''01/01/2030'', StartTime = ''01/01/2030 10:00:00'', PlayerNos = ''7, None'' \<rparr>"

definition row_1045 :: booking where
  "row_1045 = \<lparr> Date = ''01/01/2030'', StartTime = ''01/01/2030 10:45:00'', PlayerNos = ''7, 5'' \<rparr>"

definition row_1130 :: booking where
  "row_1130 = \<lparr> Date = ''01/01/2030'', StartTime = ''01/01/2030 11:30:00'', PlayerNos = ''7, None'' \<rparr>"

definition demo_period_data :: "period_entry list" where
  "demo_period_data =
     [\<lparr> pe_date = ''01/01/2030'', pe_time = ''08:00'', pe_periods = [1, 1] \<rparr>,
      \<lparr> pe_date = ''01/01/2030'', pe_time = ''10:00'', pe_periods = [1, 1] \<rparr>,
      \<lparr> pe_date = ''01/01/2030'', pe_time = ''10:45'', pe_periods = [1, 1] \<rparr>,
      \<lparr> pe_date = ''01/01/2030'', pe_time = ''11:30'', pe_periods = [1, 1] \<rparr>]"

definition nine_o_clock :: datetime where
  "nine_o_clock = new_year 9 0"

definition normal_limit :: "int \<Rightarrow> aligned_limit" where
  "normal_limit n = \<lparr> limit = 2, period_id = 1, period_description = ''NORMAL'', bookings_count = n \<rparr>"

section \<open>Properties: helpers\<close>

lemma profile_connected: "get_squash_members_profile m db = Some p \<Longrightarrow> connected db"
  by (auto simp: get_squash_members_profile_def split: if_splits)

lemma format_2f_100: "format_2f 100 = 100"
  by (simp add: format_2f_def round_ndigits_def py_round_def)

lemma demo_profile: "get_squash_members_profile 7 demo_db =
   Some \<lparr> surname = ''Lee'', first_name = ''Ann'', member_no = 7, cell_phone = ''081'',
          email = Some ''ann@example.org'', credit = 100 \<rparr>"
  by (simp add: get_squash_members_profile_def demo_db_def demo_member_def profile_of_def format_2f_100)

section \<open>Properties: booking ledger\<close>

text \<open>
  C1. A reserve attempt by a member whose profile is found (with a first name, which
  the handler needs for the name column) tests and writes each row of the ledger in one
  statement: a row of the requested start time whose cell holds NULL, -9 or 0 gets the
  member written into the cell; every other row is left as it was. The answer is
  \<open>Success\<close> when some row was written and \<open>Already_booked\<close> otherwise, and when the
  cell of the requested start time holds any other value the whole database is unchanged.
\<close>

theorem reserve_writes_iff_empty:
  assumes prof: "get_squash_members_profile mem_no db = Some p" and fn: "first_name p \<noteq> []"
    and res: "update_internet_bookings d mem_no col t db = (res, db')"
  shows "length (Bookfile db') = length (Bookfile db)
     \<and> (\<forall>i < length (Bookfile db).
          (StartTime1 (Bookfile db ! i) = d @ '' '' @ t @ '':00'' \<and> empty_cell (PlayerNo (Bookfile db ! i) col)
             \<longrightarrow> PlayerNo (Bookfile db' ! i) col = Some mem_no
                 \<and> StartTime1 (Bookfile db' ! i) = StartTime1 (Bookfile db ! i))
        \<and> (\<not> (StartTime1 (Bookfile db ! i) = d @ '' '' @ t @ '':00'' \<and> empty_cell (PlayerNo (Bookfile db ! i) col))
             \<longrightarrow> Bookfile db' ! i = Bookfile db ! i))
     \<and> res = Inr (if \<exists>r \<in> set (Bookfile db). StartTime1 r = d @ '' '' @ t @ '':00'' \<and> empty_cell (PlayerNo r col)
                   then Success else Already_booked)
     \<and> ((\<forall>r \<in> set (Bookfile db). StartTime1 r = d @ '' '' @ t @ '':00'' \<longrightarrow> \<not> empty_cell (PlayerNo r col))
          \<longrightarrow> db' = db)"
proof -
  let ?st = "d @ '' '' @ t @ '':00''"
  obtain c cs where c: "first_name p = c # cs" using fn by (cases "first_name p") auto
  have conn: "connected db" using prof by (rule profile_connected)
  let ?f = "\<lambda>r. if reserve_where ?st col r
      then reserve_set col (replace col ''PlayerNo'' ''PlayName'') mem_no ([c] @ '' '' @ surname p) r else r"
  have eq: "update_internet_bookings d mem_no col t db =
     (Inr (if length (filter (reserve_where ?st col) (Bookfile db)) > 0 then Success else Already_booked),
      db\<lparr>Bookfile := map ?f (Bookfile db)\<rparr>)"
    using prof c conn by (simp add: update_internet_bookings_def Let_def)
  from eq res have r1: "res = Inr (if length (filter (reserve_where ?st col) (Bookfile db)) > 0 then Success else Already_booked)"
    and d1: "db' = db\<lparr>Bookfile := map ?f (Bookfile db)\<rparr>" by simp_all
  have len: "length (Bookfile db') = length (Bookfile db)" using d1 by simp
  have rows: "\<And>i. i < length (Bookfile db) \<Longrightarrow> Bookfile db' ! i = ?f (Bookfile db ! i)"
    using d1 by simp
  have A: "\<forall>i < length (Bookfile db).
          (StartTime1 (Bookfile db ! i) = ?st \<and> empty_cell (PlayerNo (Bookfile db ! i) col)
             \<longrightarrow> PlayerNo (Bookfile db' ! i) col = Some mem_no
                 \<and> StartTime1 (Bookfile db' ! i) = StartTime1 (Bookfile db ! i))
        \<and> (\<not> (StartTime1 (Bookfile db ! i) = ?st \<and> empty_cell (PlayerNo (Bookfile db ! i) col))
             \<longrightarrow> Bookfile db' ! i = Bookfile db ! i)"
    using rows by (simp add: reserve_where_def reserve_set_def)
  have B: "res = Inr (if \<exists>r \<in> set (Bookfile db). StartTime1 r = ?st \<and> empty_cell (PlayerNo r col)
                   then Success else Already_booked)"
    using r1 by (auto simp: filter_empty_conv reserve_where_def)
  have C: "(\<forall>r \<in> set (Bookfile db). StartTime1 r = ?st \<longrightarrow> \<not> empty_cell (PlayerNo r col)) \<longrightarrow> db' = db"
  proof
    assume h: "\<forall>r \<in> set (Bookfile db). StartTime1 r = ?st \<longrightarrow> \<not> empty_cell (PlayerNo r col)"
    then have "map ?f (Bookfile db) = Bookfile db"
      by (intro map_idI) (auto simp: reserve_where_def)
    then show "db' = db" using d1 by simp
  qed
  show ?thesis using len A B C by blast
qed

theorem reserve_writes_iff_empty_witness:
  "get_squash_members_profile 7 demo_db \<noteq> None
   \<and> fst (update_internet_bookings ''01/01/2030'' 7 ''PlayerNo_1'' ''10:00'' demo_db) = Inr Success
   \<and> PlayerNo (Bookfile (snd (update_internet_bookings ''01/01/2030'' 7 ''PlayerNo_1'' ''10:00'' demo_db)) ! 0)
        ''PlayerNo_1'' = Some 7
   \<and> Bookfile (snd (update_internet_bookings ''01/01/2030'' 7 ''PlayerNo_2'' ''10:00'' demo_db)) ! 0
        = Bookfile demo_db ! 0"
proof -
  have p: "get_squash_members_profile 7 demo_db = Some \<lparr> surname = ''Lee'', first_name = ''Ann'',
      member_no = 7, cell_phone = ''081'', email = Some ''ann@example.org'', credit = 100 \<rparr>"
    by (rule demo_profile)
  have fn: "first_name \<lparr> surname = ''Lee'', first_name = ''Ann'',
      member_no = 7, cell_phone = ''081'', email = Some ''ann@example.org'', credit = 100 \<rparr> \<noteq> []" by simp
  have e1: "update_internet_bookings ''01/01/2030'' 7 ''PlayerNo_1'' ''10:00'' demo_db =
     (fst (update_internet_bookings ''01/01/2030'' 7 ''PlayerNo_1'' ''10:00'' demo_db),
      snd (update_internet_bookings ''01/01/2030'' 7 ''PlayerNo_1'' ''10:00'' demo_db))" by simp
  have e2: "update_internet_bookings ''01/01/2030'' 7 ''PlayerNo_2'' ''10:00'' demo_db =
     (fst (update_internet_bookings ''01/01/2030'' 7 ''PlayerNo_2'' ''10:00'' demo_db),
      snd (update_internet_bookings ''01/01/2030'' 7 ''PlayerNo_2'' ''10:00'' demo_db))" by simp
  have rows: "Bookfile demo_db = [demo_row]" by (simp add: demo_db_def)
  have c1: "empty_cell (PlayerNo demo_row ''PlayerNo_1'')" by (simp add: demo_row_def empty_cell_def)
  have c2: "\<not> empty_cell (PlayerNo demo_row ''PlayerNo_2'')" by (simp add: demo_row_def empty_cell_def)
  have st: "StartTime1 demo_row = ''01/01/2030'' @ '' '' @ ''10:00'' @ '':00''" by (simp add: demo_row_def)
  from reserve_writes_iff_empty [OF p fn e1] rows c1 st
  have w1: "fst (update_internet_bookings ''01/01/2030'' 7 ''PlayerNo_1'' ''10:00'' demo_db) = Inr Success"
    and w2: "PlayerNo (Bookfile (snd (update_internet_bookings ''01/01/2030'' 7 ''PlayerNo_1'' ''10:00'' demo_db)) ! 0)
        ''PlayerNo_1'' = Some 7" by simp_all
  from reserve_writes_iff_empty [OF p fn e2] rows c2 st
  have w3: "Bookfile (snd (update_internet_bookings ''01/01/2030'' 7 ''PlayerNo_2'' ''10:00'' demo_db)) ! 0
        = Bookfile demo_db ! 0" by simp
  show ?thesis using p w1 w2 w3 by simp
qed

lemma release_no_connection: "\<not> connected db \<Longrightarrow> delete_internet_booking start mem_no col db = (False, db)"
  by (simp add: delete_internet_booking_def)

text \<open>
  C6. With a database connection, a release attempt by a member clears the cell of a
  row exactly when the row has the requested start time and the cell holds that member;
  every other row is left as it was. The answer is true exactly when some row was
  cleared; when it is false (the occupant differs, or no row has the start time) the
  whole database is unchanged.
\<close>

theorem release_clears_iff_occupant:
  assumes conn: "connected db"
    and res: "delete_internet_booking start mem_no col db = (ok, db')"
  shows "length (Bookfile db') = length (Bookfile db)
     \<and> (\<forall>i < length (Bookfile db).
          (StartTime1 (Bookfile db ! i) = start \<and> PlayerNo (Bookfile db ! i) col = Some mem_no
             \<longrightarrow> PlayerNo (Bookfile db' ! i) col = None
                 \<and> StartTime1 (Bookfile db' ! i) = StartTime1 (Bookfile db ! i))
        \<and> (\<not> (StartTime1 (Bookfile db ! i) = start \<and> PlayerNo (Bookfile db ! i) col = Some mem_no)
             \<longrightarrow> Bookfile db' ! i = Bookfile db ! i))
     \<and> (ok \<longleftrightarrow> (\<exists>r \<in> set (Bookfile db). StartTime1 r = start \<and> PlayerNo r col = Some mem_no))
     \<and> (\<not> ok \<longrightarrow> db' = db)"
proof -
  let ?f = "\<lambda>r. if release_where start col mem_no r
      then release_set col (replace col ''PlayerNo'' ''PlayName'') r else r"
  from res conn have ok: "ok = (length (filter (release_where start col mem_no) (Bookfile db)) > 0)"
    and d1: "db' = db\<lparr>Bookfile := map ?f (Bookfile db)\<rparr>"
    by (simp_all add: delete_internet_booking_def Let_def)
  have len: "length (Bookfile db') = length (Bookfile db)" using d1 by simp
  have rows: "\<And>i. i < length (Bookfile db) \<Longrightarrow> Bookfile db' ! i = ?f (Bookfile db ! i)"
    using d1 by simp
  have A: "\<forall>i < length (Bookfile db).
          (StartTime1 (Bookfile db ! i) = start \<and> PlayerNo (Bookfile db ! i) col = Some mem_no
             \<longrightarrow> PlayerNo (Bookfile db' ! i) col = None
                 \<and> StartTime1 (Bookfile db' ! i) = StartTime1 (Bookfile db ! i))
        \<and> (\<not> (StartTime1 (Bookfile db ! i) = start \<and> PlayerNo (Bookfile db ! i) col = Some mem_no)
             \<longrightarrow> Bookfile db' ! i = Bookfile db ! i)"
    using rows by (simp add: release_where_def release_set_def)
  have B: "ok \<longleftrightarrow> (\<exists>r \<in> set (Bookfile db). StartTime1 r = start \<and> PlayerNo r col = Some mem_no)"
    using ok by (auto simp: filter_empty_conv release_where_def)
  have C: "\<not> ok \<longrightarrow> db' = db"
  proof
    assume "\<not> ok"
    with B have "\<forall>r \<in> set (Bookfile db). \<not> release_where start col mem_no r"
      by (auto simp: release_where_def)
    then have "map ?f (Bookfile db) = Bookfile db" by (intro map_idI) auto
    then show "db' = db" using d1 by simp
  qed
  show ?thesis using len A B C by blast
qed

theorem release_clears_iff_occupant_witness:
  "connected demo_db
   \<and> fst (delete_internet_booking ''01/01/2030 10:00:00'' 5 ''PlayerNo_2'' demo_db)
   \<and> PlayerNo (Bookfile (snd (delete_internet_booking ''01/01/2030 10:00:00'' 5 ''PlayerNo_2'' demo_db)) ! 0)
        ''PlayerNo_2'' = None
   \<and> \<not> fst (delete_internet_booking ''01/01/2030 10:00:00'' 7 ''PlayerNo_2'' demo_db)
   \<and> snd (delete_internet_booking ''01/01/2030 10:00:00'' 7 ''PlayerNo_2'' demo_db) = demo_db"
proof -
  have conn: "connected demo_db" by (simp add: demo_db_def)
  have e1: "delete_internet_booking ''01/01/2030 10:00:00'' 5 ''PlayerNo_2'' demo_db =
     (fst (delete_internet_booking ''01/01/2030 10:00:00'' 5 ''PlayerNo_2'' demo_db),
      snd (delete_internet_booking ''01/01/2030 10:00:00'' 5 ''PlayerNo_2'' demo_db))" by simp
  have e2: "delete_internet_booking ''01/01/2030 10:00:00'' 7 ''PlayerNo_2'' demo_db =
     (fst (delete_internet_booking ''01/01/2030 10:00:00'' 7 ''PlayerNo_2'' demo_db),
      snd (delete_internet_booking ''01/01/2030 10:00:00'' 7 ''PlayerNo_2'' demo_db))" by simp
  have rows: "Bookfile demo_db = [demo_row]" by (simp add: demo_db_def)
  have c: "PlayerNo demo_row ''PlayerNo_2'' = Some 5" by (simp add: demo_row_def)
  have st: "StartTime1 demo_row = ''01/01/2030 10:00:00''" by (simp add: demo_row_def)
  from release_clears_iff_occupant [OF conn e1] rows c st
  have w1: "fst (delete_internet_booking ''01/01/2030 10:00:00'' 5 ''PlayerNo_2'' demo_db)"
    and w2: "PlayerNo (Bookfile (snd (delete_internet_booking ''01/01/2030 10:00:00'' 5 ''PlayerNo_2'' demo_db)) ! 0)
        ''PlayerNo_2'' = None" by simp_all
  from release_clears_iff_occupant [OF conn e2] rows c st
  have w3: "\<not> fst (delete_internet_booking ''01/01/2030 10:00:00'' 7 ''PlayerNo_2'' demo_db)"
    and w4: "snd (delete_internet_booking ''01/01/2030 10:00:00'' 7 ''PlayerNo_2'' demo_db) = demo_db"
    by simp_all
  show ?thesis using conn w1 w2 w3 w4 by simp
qed

section \<open>Properties: financial adjuster\<close>

lemma find_map_same_key:
  assumes "\<And>x. Mem_No (f x) = Mem_No x"
  shows "find (\<lambda>m. Mem_No m = k) (map f xs) = map_option f (find (\<lambda>m. Mem_No m = k) xs)"
  using assms by (induction xs) auto

lemma update_profile_result:
  assumes prof: "get_squash_members_profile m db = Some p"
  shows "\<exists>db'. update_squash_member_profile m (first_name p) (surname p) (cell_phone p) (email p) cred db = (True, db')
     \<and> get_squash_members_profile m db' = Some (p\<lparr> credit := format_2f cred \<rparr>)
     \<and> map_option S_Credit (find (\<lambda>x. Mem_No x = m) (Clublist db')) = Some (Some cred)
     \<and> connected db' \<and> Courts db' = Courts db \<and> Periods db' = Periods db \<and> Bookfile db' = Bookfile db"
proof -
  from prof have conn: "connected db" by (rule profile_connected)
  from prof conn obtain row where row: "find (\<lambda>x. Mem_No x = m) (Clublist db) = Some row"
    and p: "p = profile_of row"
    by (auto simp: get_squash_members_profile_def)
  from row have mem: "row \<in> set (Clublist db)" "Mem_No row = m"
    by (auto simp: find_Some_iff)
  let ?f = "\<lambda>x. if Mem_No x = m
                   then x\<lparr> First := first_name p, Surname := surname p, CellPhone := cell_phone p,
                           E_Mail_Adr := email p, S_Credit := Some cred \<rparr>
                   else x"
  let ?db = "db\<lparr> Clublist := map ?f (Clublist db) \<rparr>"
  have u: "update_squash_member_profile m (first_name p) (surname p) (cell_phone p) (email p) cred db = (True, ?db)"
    using conn mem by (auto simp: update_squash_member_profile_def)
  have fk: "\<And>x. Mem_No (?f x) = Mem_No x" by simp
  have f: "find (\<lambda>x. Mem_No x = m) (map ?f (Clublist db)) = Some (?f row)"
    using find_map_same_key [of ?f m "Clublist db"] row by simp
  have g: "get_squash_members_profile m ?db = Some (p\<lparr> credit := format_2f cred \<rparr>)"
    using conn f mem p by (simp add: get_squash_members_profile_def profile_of_def)
  have s: "map_option S_Credit (find (\<lambda>x. Mem_No x = m) (Clublist ?db)) = Some (Some cred)"
    using f mem by simp
  have k: "connected ?db" "Courts ?db = Courts db" "Periods ?db = Periods db" "Bookfile ?db = Bookfile db"
    using conn by simp_all
  show ?thesis
    by (rule exI [of _ ?db]) (simp only: u g s k simp_thms)
qed

lemma post_adjustment:
  assumes prof: "get_squash_members_profile m db = Some p" and m: "m \<noteq> 0"
    and ct: "ctype = ''IBOOKING'' \<or> ctype = ''ICANCEL''"
    and c: "lookup_cost ctype (get_court_rates_per_minute db) = Inr (Some c)"
  shows "\<exists>db'. calculated_internet_bookings POST (Some m) ctype db =
            (Fin_ok \<lparr> cost_type = ctype, cost = format_2f c, current_credit = format_2f (credit p),
                      updated_credit = format_2f (credit p - c) \<rparr>, db')
     \<and> get_squash_members_profile m db' = Some (p\<lparr> credit := format_2f (credit p - c) \<rparr>)
     \<and> map_option S_Credit (find (\<lambda>x. Mem_No x = m) (Clublist db')) = Some (Some (credit p - c))
     \<and> get_court_rates_per_minute db' = get_court_rates_per_minute db"
proof -
  from update_profile_result [OF prof, of "credit p - c"] obtain db' where
    u: "update_squash_member_profile m (first_name p) (surname p) (cell_phone p) (email p) (credit p - c) db = (True, db')"
    and g: "get_squash_members_profile m db' = Some (p\<lparr> credit := format_2f (credit p - c) \<rparr>)"
    and s: "map_option S_Credit (find (\<lambda>x. Mem_No x = m) (Clublist db')) = Some (Some (credit p - c))"
    and k: "connected db'" "Courts db' = Courts db" by blast
  have conn: "connected db" using prof by (rule profile_connected)
  have r: "get_court_rates_per_minute db' = get_court_rates_per_minute db"
    using k conn by (simp add: get_court_rates_per_minute_def)
  have guard: "\<not> (m = 0 \<or> ctype \<notin> {''IBOOKING'', ''ICANCEL''})"
    using m ct by blast
  have "calculated_internet_bookings POST (Some m) ctype db =
            (Fin_ok \<lparr> cost_type = ctype, cost = format_2f c, current_credit = format_2f (credit p),
                      updated_credit = format_2f (credit p - c) \<rparr>, db')"
    unfolding calculated_internet_bookings_def Let_def
    by (simp only: option.case if_not_P [OF guard] prof c sum.case u prod.case
          if_True if_False simp_thms)
  then show ?thesis using g s r by (intro exI [of _ db']) (simp only: simp_thms)
qed

lemma format_2f_90: "format_2f 90 = 90"
  by (simp add: format_2f_def round_ndigits_def py_round_def)

lemma format_2f_85: "format_2f 85 = 85"
  by (simp add: format_2f_def round_ndigits_def py_round_def)

lemma format_2f_10: "format_2f 10 = 10"
  by (simp add: format_2f_def round_ndigits_def py_round_def)

lemma format_2f_5: "format_2f 5 = 5"
  by (simp add: format_2f_def round_ndigits_def py_round_def)

lemma demo_rates: "get_court_rates_per_minute demo_db =
   [(''VISIONS'', \<lparr> rates = [0.4444], bookings = [10], cancellations = [5] \<rparr>)]"
  by (simp add: get_court_rates_per_minute_def demo_db_def add_court_def valid_values_def
      round_ndigits_def py_round_def Let_def)

text \<open>
  C8. A member with balance 100.00, a booking cost of 10.00 and a cancellation fee of
  5.00: the booking adjustment stores 90.00 and the cancellation adjustment that follows
  stores 85.00. Both amounts are subtracted.
\<close>

theorem booking_then_cancellation_both_subtracted:
  assumes prof: "get_squash_members_profile m db = Some p" and m: "m \<noteq> 0"
    and bal: "credit p = 100"
    and b: "lookup_cost ''IBOOKING'' (get_court_rates_per_minute db) = Inr (Some 10)"
    and c: "lookup_cost ''ICANCEL'' (get_court_rates_per_minute db) = Inr (Some 5)"
  shows "\<exists>db1 db2.
      calculated_internet_bookings POST (Some m) ''IBOOKING'' db =
        (Fin_ok \<lparr> cost_type = ''IBOOKING'', cost = 10, current_credit = 100, updated_credit = 90 \<rparr>, db1)
    \<and> calculated_internet_bookings POST (Some m) ''ICANCEL'' db1 =
        (Fin_ok \<lparr> cost_type = ''ICANCEL'', cost = 5, current_credit = 90, updated_credit = 85 \<rparr>, db2)
    \<and> map_option S_Credit (find (\<lambda>x. Mem_No x = m) (Clublist db2)) = Some (Some 85)
    \<and> map_option credit (get_squash_members_profile m db2) = Some 85"
proof -
  from post_adjustment [OF prof m _ b] obtain db1 where
    s1: "calculated_internet_bookings POST (Some m) ''IBOOKING'' db =
        (Fin_ok \<lparr> cost_type = ''IBOOKING'', cost = format_2f 10, current_credit = format_2f (credit p),
                  updated_credit = format_2f (credit p - 10) \<rparr>, db1)"
    and p1: "get_squash_members_profile m db1 = Some (p\<lparr> credit := format_2f (credit p - 10) \<rparr>)"
    and r1: "get_court_rates_per_minute db1 = get_court_rates_per_minute db"
    by blast
  let ?p1 = "p\<lparr> credit := format_2f (credit p - 10) \<rparr>"
  have c1: "lookup_cost ''ICANCEL'' (get_court_rates_per_minute db1) = Inr (Some 5)"
    using c r1 by simp
  have cr1: "credit ?p1 = 90" using bal by (simp add: format_2f_90)
  from post_adjustment [OF p1 m _ c1] obtain db2 where
    s2: "calculated_internet_bookings POST (Some m) ''ICANCEL'' db1 =
        (Fin_ok \<lparr> cost_type = ''ICANCEL'', cost = format_2f 5, current_credit = format_2f (credit ?p1),
                  updated_credit = format_2f (credit ?p1 - 5) \<rparr>, db2)"
    and p2: "get_squash_members_profile m db2 = Some (?p1\<lparr> credit := format_2f (credit ?p1 - 5) \<rparr>)"
    and st2: "map_option S_Credit (find (\<lambda>x. Mem_No x = m) (Clublist db2)) = Some (Some (credit ?p1 - 5))"
    by blast
  have a1: "calculated_internet_bookings POST (Some m) ''IBOOKING'' db =
        (Fin_ok \<lparr> cost_type = ''IBOOKING'', cost = 10, current_credit = 100, updated_credit = 90 \<rparr>, db1)"
    using s1 bal by (simp add: format_2f_90 format_2f_100 format_2f_10)
  have a2: "calculated_internet_bookings POST (Some m) ''ICANCEL'' db1 =
        (Fin_ok \<lparr> cost_type = ''ICANCEL'', cost = 5, current_credit = 90, updated_credit = 85 \<rparr>, db2)"
    using s2 cr1 by (simp add: format_2f_90 format_2f_85 format_2f_5)
  have a3: "map_option S_Credit (find (\<lambda>x. Mem_No x = m) (Clublist db2)) = Some (Some 85)"
    using st2 cr1 by simp
  have a4: "map_option credit (get_squash_members_profile m db2) = Some 85"
    using p2 cr1 by (simp add: format_2f_85)
  show ?thesis using a1 a2 a3 a4 by blast
qed

theorem booking_then_cancellation_both_subtracted_witness:
  "get_squash_members_profile 7 demo_db \<noteq> None
   \<and> (\<exists>db1 db2.
      calculated_internet_bookings POST (Some 7) ''IBOOKING'' demo_db =
        (Fin_ok \<lparr> cost_type = ''IBOOKING'', cost = 10, current_credit = 100, updated_credit = 90 \<rparr>, db1)
    \<and> calculated_internet_bookings POST (Some 7) ''ICANCEL'' db1 =
        (Fin_ok \<lparr> cost_type = ''ICANCEL'', cost = 5, current_credit = 90, updated_credit = 85 \<rparr>, db2)
    \<and> map_option S_Credit (find (\<lambda>x. Mem_No x = 7) (Clublist db2)) = Some (Some 85)
    \<and> map_option credit (get_squash_members_profile 7 db2) = Some 85)"
proof -
  have m: "(7::int) \<noteq> 0" by simp
  have bal: "credit \<lparr> surname = ''Lee'', first_name = ''Ann'', member_no = 7, cell_phone = ''081'',
          email = Some ''ann@example.org'', credit = 100 \<rparr> = 100" by simp
  have b: "lookup_cost ''IBOOKING'' (get_court_rates_per_minute demo_db) = Inr (Some 10)"
    by (simp add: demo_rates)
  have c: "lookup_cost ''ICANCEL'' (get_court_rates_per_minute demo_db) = Inr (Some 5)"
    by (simp add: demo_rates)
  show ?thesis
    using booking_then_cancellation_both_subtracted [OF demo_profile m bal b c] demo_profile
    by simp
qed

lemma py_round_rate: "py_round (0.4444 * 45) = 20"
proof -
  have "\<lfloor>(0.4444::real) * 45\<rfloor> = 19" by (simp add: floor_eq_iff)
  then show ?thesis by (simp add: py_round_def Let_def)
qed

lemma demo_costs: "get_court_booking_costs demo_db = Costs_ok [(''NORMAL'', Some 20), (''PEAK'', None)]"
  using py_round_rate
  by (simp add: get_court_booking_costs_def demo_rates get_periods_def rate_for_def)
     (simp add: demo_db_def rate_for_def)

text \<open>
  C4, as stated, fails. In the example club the first court has the per-minute rate
  0.4444, so the rate times 45 minutes rounds to 20, and the booking cost 10. The
  booking adjustment takes 10 from the balance of 100, not 20.
\<close>

theorem booking_cost_is_not_rate_times_45_counterexample:
  "get_court_rates_per_minute demo_db =
     [(''VISIONS'', \<lparr> rates = [0.4444], bookings = [10], cancellations = [5] \<rparr>)]
   \<and> py_round (0.4444 * 45) = 20
   \<and> (100::real) - 90 \<noteq> of_int (py_round (0.4444 * 45))
   \<and> fst (calculated_internet_bookings POST (Some 7) ''IBOOKING'' demo_db) =
       Fin_ok \<lparr> cost_type = ''IBOOKING'', cost = 10, current_credit = 100, updated_credit = 90 \<rparr>"
proof -
  have m: "(7::int) \<noteq> 0" by simp
  have b: "lookup_cost ''IBOOKING'' (get_court_rates_per_minute demo_db) = Inr (Some 10)"
    by (simp add: demo_rates)
  from post_adjustment [OF demo_profile m _ b]
  have "fst (calculated_internet_bookings POST (Some 7) ''IBOOKING'' demo_db) =
       Fin_ok \<lparr> cost_type = ''IBOOKING'', cost = 10, current_credit = 100, updated_credit = 90 \<rparr>"
    by (auto simp: format_2f_10 format_2f_100 format_2f_90)
  then show ?thesis using demo_rates py_round_rate by simp
qed

lemma lookup_cost_booking:
  "lookup_cost ''IBOOKING'' court_data = Inr (Some c) \<Longrightarrow>
   \<exists>desc cost_data others cs. court_data = (desc, cost_data) # others \<and> bookings cost_data = c # cs"
  by (cases court_data) (auto split: list.splits)

lemma valid_values_nonzero: "x \<in> set (valid_values xs) \<Longrightarrow> x \<noteq> 0 \<and> Some x \<in> set xs"
  by (auto simp: valid_values_def split: option.splits if_splits)

text \<open>
  C4, amended. Whenever a booking adjustment succeeds, the amount taken from the
  stored balance is the first non-zero, non-NULL booking cost (\<open>IBOOKINGn\<close>) of the
  first court of the rates table. The per-minute rate, the 45 minutes and the rounding
  to a whole unit belong to the display endpoint \<open>get_court_booking_costs\<close> only.
\<close>

theorem booking_cost_is_first_booking_cost:
  assumes ok: "calculated_internet_bookings POST (Some m) ''IBOOKING'' db = (Fin_ok fd, db')"
  shows "\<exists>p desc cost_data others c cs.
      get_squash_members_profile m db = Some p
    \<and> get_court_rates_per_minute db = (desc, cost_data) # others
    \<and> bookings cost_data = c # cs
    \<and> cost fd = format_2f c
    \<and> map_option S_Credit (find (\<lambda>x. Mem_No x = m) (Clublist db')) = Some (Some (credit p - c))"
proof -
  from ok have m: "m \<noteq> 0"
    by (auto simp: calculated_internet_bookings_def split: if_splits)
  from ok m obtain p where prof: "get_squash_members_profile m db = Some p"
    by (cases "get_squash_members_profile m db") (auto simp: calculated_internet_bookings_def)
  from ok m prof obtain c where c: "lookup_cost ''IBOOKING'' (get_court_rates_per_minute db) = Inr (Some c)"
    by (cases "lookup_cost ''IBOOKING'' (get_court_rates_per_minute db)")
       (auto simp: calculated_internet_bookings_def split: option.splits)
  from lookup_cost_booking [OF c] obtain desc cost_data others cs where
    cd: "get_court_rates_per_minute db = (desc, cost_data) # others" "bookings cost_data = c # cs"
    by blast
  from post_adjustment [OF prof m _ c] obtain db1 where
    s1: "calculated_internet_bookings POST (Some m) ''IBOOKING'' db =
        (Fin_ok \<lparr> cost_type = ''IBOOKING'', cost = format_2f c, current_credit = format_2f (credit p),
                  updated_credit = format_2f (credit p - c) \<rparr>, db1)"
    and st: "map_option S_Credit (find (\<lambda>x. Mem_No x = m) (Clublist db1)) = Some (Some (credit p - c))"
    by blast
  from s1 ok have "db1 = db'" and "cost fd = format_2f c" by auto
  with st prof cd show ?thesis by blast
qed

theorem booking_cost_is_first_booking_cost_witness:
  "(\<exists>fd db'. calculated_internet_bookings POST (Some 7) ''IBOOKING'' demo_db = (Fin_ok fd, db')
      \<and> cost fd = 10
      \<and> map_option S_Credit (find (\<lambda>x. Mem_No x = 7) (Clublist db')) = Some (Some 90))"
proof -
  have m: "(7::int) \<noteq> 0" by simp
  have b: "lookup_cost ''IBOOKING'' (get_court_rates_per_minute demo_db) = Inr (Some 10)"
    by (simp add: demo_rates)
  from post_adjustment [OF demo_profile m _ b] obtain db1 where
    s1: "calculated_internet_bookings POST (Some 7) ''IBOOKING'' demo_db =
        (Fin_ok \<lparr> cost_type = ''IBOOKING'', cost = 10, current_credit = 100, updated_credit = 90 \<rparr>, db1)"
    by (auto simp: format_2f_10 format_2f_100 format_2f_90)
  from booking_cost_is_first_booking_cost [OF s1] demo_profile demo_rates
  have "map_option S_Credit (find (\<lambda>x. Mem_No x = 7) (Clublist db1)) = Some (Some 90)"
    by auto
  with s1 show ?thesis by auto
qed

section \<open>Properties: waiting list store\<close>

text \<open>
  C9. An add request by a logged-in member whose stored e-mail address is missing, is
  empty after trimming, or does not hold exactly one \<open>@\<close> is answered with an error
  (status 400), and the file is left as it was.
\<close>

theorem add_rejects_bad_email:
  assumes sess: "sess_Mem_No sess = Some pid"
    and md: "get_member_email_and_memnumber pid db = Some stored"
    and bad: "case stored of None \<Rightarrow> True
              | Some addr \<Rightarrow> strip addr = [] \<or> count_list addr CHR ''@'' \<noteq> 1"
  shows "\<exists>msg. add_to_waiting_list strptime now sess date_arg slot_arg db wl = (Wl_error 400 msg, wl)"
proof (cases date_arg)
  case None
  then show ?thesis using sess by (simp add: add_to_waiting_list_def Let_def)
next
  case (Some date0)
  note d = this
  show ?thesis
  proof (cases slot_arg)
    case None
    then show ?thesis using sess d by (simp add: add_to_waiting_list_def Let_def)
  next
    case (Some time_slot)
    show ?thesis
    proof (cases "date0 = [] \<or> time_slot = []")
      case True
      then show ?thesis using sess d Some by (auto simp: add_to_waiting_list_def Let_def)
    next
      case False
      show ?thesis
      proof (cases stored)
        case None
        then show ?thesis using sess d Some False md
          by (simp add: add_to_waiting_list_def Let_def)
      next
        case (Some addr)
        with bad have "strip addr = [] \<or> count_list addr CHR ''@'' \<noteq> 1" by simp
        then show ?thesis using sess d \<open>slot_arg = Some time_slot\<close> False md Some
          by (auto simp: add_to_waiting_list_def Let_def)
      qed
    qed
  qed
qed

lemma strip_spaces: "strip ''   '' = []"
  by (simp add: strip_def py_isspace_def)

theorem add_rejects_bad_email_witness:
  "add_to_waiting_list demo_strptime
      \<lparr> dt_year = 2029, dt_month = 12, dt_day = 31, dt_hour = 9, dt_minute = 0, dt_second = 0 \<rparr>
      \<lparr> sess_Mem_No = Some 7, sess_first_name = Some ''Ann'', sess_last_name = Some ''Lee'' \<rparr>
      (Some ''01/01/2030'') (Some ''10:00'')
      (demo_db\<lparr> Clublist := [demo_member\<lparr> E_Mail_Adr := Some ''   '' \<rparr>] \<rparr>)
      [(''01/01/2030'', [(''10:00'', [entry_A])])]
   = (Wl_error 400 ''Please update email address in My Profile.'',
      [(''01/01/2030'', [(''10:00'', [entry_A])])])"
proof -
  let ?sess = "\<lparr> sess_Mem_No = Some 7, sess_first_name = Some ''Ann'', sess_last_name = Some ''Lee'' \<rparr>"
  let ?db = "demo_db\<lparr> Clublist := [demo_member\<lparr> E_Mail_Adr := Some ''   '' \<rparr>] \<rparr>"
  have s: "sess_Mem_No ?sess = Some 7" by simp
  have md: "get_member_email_and_memnumber 7 ?db = Some (Some ''   '')"
    by (simp add: get_member_email_and_memnumber_def demo_db_def demo_member_def)
  have bad: "case Some ''   '' of None \<Rightarrow> True
              | Some addr \<Rightarrow> strip addr = [] \<or> count_list addr CHR ''@'' \<noteq> 1"
    by (simp add: strip_spaces)
  from add_rejects_bad_email [OF s md bad, of demo_strptime
      "\<lparr> dt_year = 2029, dt_month = 12, dt_day = 31, dt_hour = 9, dt_minute = 0, dt_second = 0 \<rparr>"
      "Some ''01/01/2030''" "Some ''10:00''" "[(''01/01/2030'', [(''10:00'', [entry_A])])]"]
  obtain msg where r: "add_to_waiting_list demo_strptime
      \<lparr> dt_year = 2029, dt_month = 12, dt_day = 31, dt_hour = 9, dt_minute = 0, dt_second = 0 \<rparr>
      ?sess (Some ''01/01/2030'') (Some ''10:00'') ?db [(''01/01/2030'', [(''10:00'', [entry_A])])]
      = (Wl_error 400 msg, [(''01/01/2030'', [(''10:00'', [entry_A])])])" by blast
  have "fst (add_to_waiting_list demo_strptime
      \<lparr> dt_year = 2029, dt_month = 12, dt_day = 31, dt_hour = 9, dt_minute = 0, dt_second = 0 \<rparr>
      ?sess (Some ''01/01/2030'') (Some ''10:00'') ?db [(''01/01/2030'', [(''10:00'', [entry_A])])])
      = Wl_error 400 ''Please update email address in My Profile.''"
    by (simp add: add_to_waiting_list_def md Let_def strip_spaces)
  with r show ?thesis by simp
qed

text \<open>
  Cleanup, add and remove keep the shape \<open>wl_inv\<close> of the file: remove deletes a time
  slot it has emptied and a date it has left without time slots.
\<close>

lemma list_all_update:
  "P (k, v) \<Longrightarrow> list_all P xs \<Longrightarrow> list_all P (AList.update k v xs)"
  by (induction xs) auto

lemma list_all_delete: "list_all P xs \<Longrightarrow> list_all P (AList.delete k xs)"
  by (simp add: AList.delete_eq list_all_iff)

lemma list_all_map_of: "list_all P xs \<Longrightarrow> map_of xs k = Some v \<Longrightarrow> P (k, v)"
  by (auto simp: list_all_iff dest: map_of_SomeD)

lemma update_not_empty: "AList.update k v xs \<noteq> []"
  by (cases xs) auto

lemma cleanup_preserves_inv: "wl_inv wl \<Longrightarrow> wl_inv (cleanup_waiting_list strptime now wl)"
  by (simp add: wl_inv_def cleanup_waiting_list_def list_all_iff)

lemma inv_slots:
  "wl_inv wl \<Longrightarrow> map_of wl date = Some sl \<Longrightarrow> list_all (\<lambda>(time_slot, entries). entries \<noteq> []) sl"
  using list_all_map_of [of _ wl date sl] by (auto simp: wl_inv_def)

lemma wl_inv_update:
  "wl_inv wl \<Longrightarrow> sl \<noteq> [] \<Longrightarrow> list_all (\<lambda>(time_slot, entries). entries \<noteq> []) sl
     \<Longrightarrow> wl_inv (AList.update date sl wl)"
  unfolding wl_inv_def by (rule list_all_update) simp_all

lemma wl_inv_delete: "wl_inv wl \<Longrightarrow> wl_inv (AList.delete date wl)"
  unfolding wl_inv_def by (rule list_all_delete)

lemma slots_append:
  "list_all (\<lambda>(time_slot, entries). entries \<noteq> []) sl
     \<Longrightarrow> list_all (\<lambda>(time_slot, entries). entries \<noteq> []) (AList.update time_slot (es @ [e]) sl)"
  by (rule list_all_update) simp_all

lemma add_preserves_inv:
  assumes inv: "wl_inv wl"
    and res: "add_to_waiting_list strptime now sess date_arg slot_arg db wl = (resp, wl')"
  shows "wl_inv wl'"
proof -
  let ?cl = "cleanup_waiting_list strptime now wl"
  have c: "wl_inv ?cl" using inv by (rule cleanup_preserves_inv)
  have a1: "wl_inv (AList.update date [(time_slot, [e])] ?cl)" for date time_slot and e :: entry
    by (rule wl_inv_update [OF c]) simp_all
  have a2: "wl_inv (AList.update date (AList.update time_slot es sl) ?cl)"
    if "map_of ?cl date = Some sl" "es \<noteq> []" for date time_slot sl and es :: "entry list"
    using that inv_slots [OF c that(1)]
    by (intro wl_inv_update [OF c] update_not_empty list_all_update) simp_all
  from res show ?thesis
    unfolding add_to_waiting_list_def Let_def
    using inv c a1 a2
    by (simp split: option.split_asm if_split_asm prod.split_asm) blast+
qed

lemma remove_preserves_inv:
  assumes inv: "wl_inv wl"
    and res: "remove_from_waiting_list sess date_arg slot_arg wl = (resp, wl')"
  shows "wl_inv wl'"
proof -
  have s1: "wl_inv (AList.update date (AList.update time_slot es slots) wl)"
    if "map_of wl date = Some slots" "es \<noteq> []" for date time_slot slots and es :: "entry list"
    using that inv_slots [OF inv that(1)]
    by (intro wl_inv_update [OF inv] update_not_empty list_all_update) simp_all
  have s2: "wl_inv (AList.update date (AList.delete time_slot slots) wl)"
    if "map_of wl date = Some slots" "AList.delete time_slot slots \<noteq> []" for date time_slot slots
    using that inv_slots [OF inv that(1)]
    by (intro wl_inv_update [OF inv] list_all_delete) simp_all
  have s3: "wl_inv (AList.delete date wl)" for date
    using inv by (rule wl_inv_delete)
  from res show ?thesis
    unfolding remove_from_waiting_list_def Let_def
    using inv s1 s2 s3
    by (simp split: option.split_asm if_split_asm prod.split_asm) blast+
qed

section \<open>Properties: notification dispatcher\<close>

lemma send_A_fails:
  "send_booking_cancellation_email demo_strptime mail_fails_for_A ''al@example.org'' n ''01/01/2030'' ''10:00''
     = Inl MailError"
  by (simp add: send_booking_cancellation_email_def demo_strptime_def mail_fails_for_A_def)

lemma send_B_ok:
  "send_booking_cancellation_email demo_strptime mail_fails_for_A ''bo@example.org'' n ''01/01/2030'' ''10:00''
     = Inr ()"
  by (simp add: send_booking_cancellation_email_def demo_strptime_def mail_fails_for_A_def)

lemma send_delivers:
  "send_booking_cancellation_email demo_strptime mail_delivers r n ''01/01/2030'' ''10:00'' = Inr ()"
  by (simp add: send_booking_cancellation_email_def demo_strptime_def mail_delivers_def)

text \<open>
  C3 on the code: with the entries A then B waiting, A's message failing and B's being
  sent, the retained list is not empty, the assignment raises \<open>TypeError\<close> and the file
  is not saved: it still holds both A and B.
\<close>

theorem failed_send_blocks_removal_of_notified:
  "process_waiting_list_notifications demo_strptime mail_fails_for_A ''01/01/2030'' ''10:00'' None
      [(''01/01/2030'', [(''10:00'', [entry_A, entry_B])])]
   = (Some TypeError, [(''01/01/2030'', [(''10:00'', [entry_A, entry_B])])], [''bo@example.org''])"
  by (simp add: process_waiting_list_notifications_def entry_A_def entry_B_def send_A_fails send_B_ok)

text \<open>
  C10 on the code: when every waiting entry of the slot has been sent a message, the
  notification step deletes the time slot and saves the file with the date still
  present and mapped to an empty dictionary.
\<close>

theorem notification_leaves_empty_date:
  "wl_inv [(''01/01/2030'', [(''10:00'', [entry_A, entry_B])])]
   \<and> process_waiting_list_notifications demo_strptime mail_delivers ''01/01/2030'' ''10:00'' None
        [(''01/01/2030'', [(''10:00'', [entry_A, entry_B])])]
      = (None, [(''01/01/2030'', [])], [''al@example.org'', ''bo@example.org''])
   \<and> \<not> wl_inv [(''01/01/2030'', [])]"
  by (simp add: process_waiting_list_notifications_def entry_A_def entry_B_def send_delivers wl_inv_def
      AList.delete_eq)

lemma booked_release: "delete_internet_booking ''01/01/2030 10:00:00'' 7 ''PlayerNo_1'' booked_db = (True, demo_db\<lparr> Bookfile := [demo_row\<lparr> PlayerNo := (PlayerNo demo_row)(''PlayerNo_1'' := None),
                PlayName := (PlayName demo_row)(''PlayName_1'' := None) \<rparr>] \<rparr>)"
  by (simp add: delete_internet_booking_def booked_db_def demo_db_def release_where_def release_set_def
      demo_row_def replace_def Let_def)

text \<open>
  C2 on the code: the member 7 cancels the own booking of 10:00 while being the only
  waiting entry of that slot. The handler passes no cancelling player, so the member is
  sent the message and the entry is removed from the file.
\<close>

theorem cancelling_member_is_notified_and_dropped:
  "st_sent (snd (delete_booking demo_strptime mail_delivers ''01/01/2030'' ''10:00'' ''PlayerNo_1'' 7 1
      \<lparr> st_db = booked_db, st_waiting_list = [(''01/01/2030'', [(''10:00'', [entry_M])])], st_sent = [] \<rparr>))
     = [''ann@example.org'']
   \<and> st_waiting_list (snd (delete_booking demo_strptime mail_delivers ''01/01/2030'' ''10:00'' ''PlayerNo_1'' 7 1
      \<lparr> st_db = booked_db, st_waiting_list = [(''01/01/2030'', [(''10:00'', [entry_M])])], st_sent = [] \<rparr>))
     = [(''01/01/2030'', [])]"
  by (simp add: delete_booking_def booked_release process_waiting_list_notifications_def entry_M_def
      send_delivers AList.delete_eq split: prod.splits)

section \<open>Properties: booking limit evaluator\<close>

lemma strip_tokens:
  "strip ''7'' = ''7''" "strip '' None'' = ''None''" "strip '' 5'' = ''5''"
  by (simp_all add: strip_def py_isspace_def)

lemma str_int_7: "str_int 7 = ''7''"
  by (simp add: str_int_def str_nat.simps digit_char_def)

lemma count_row_0800:
  "count_period_entries 7 row_0800 ''08:00'' demo_period_data [normal_limit n] = [normal_limit (n + 1)]"
  by (simp add: demo_period_data_def row_0800_def strip_tokens str_int_7 normal_limit_def)

lemma count_row_1000:
  "count_period_entries 7 row_1000 ''10:00'' demo_period_data [normal_limit n] = [normal_limit (n + 1)]"
  by (simp add: demo_period_data_def row_1000_def strip_tokens str_int_7 normal_limit_def)

lemma count_row_1045:
  "count_period_entries 7 row_1045 ''10:45'' demo_period_data [normal_limit n] = [normal_limit (n + 1)]"
  by (simp add: demo_period_data_def row_1045_def strip_tokens str_int_7 normal_limit_def)

lemma count_row_1130:
  "count_period_entries 7 row_1130 ''11:30'' demo_period_data [normal_limit n] = [normal_limit (n + 1)]"
  by (simp add: demo_period_data_def row_1130_def strip_tokens str_int_7 normal_limit_def)

lemma parse_rows:
  "demo_strptime (StartTime row_0800) ''%d/%m/%Y %H:%M:%S'' = Some (new_year 8 0)"
  "demo_strptime (StartTime row_1000) ''%d/%m/%Y %H:%M:%S'' = Some (new_year 10 0)"
  "demo_strptime (StartTime row_1045) ''%d/%m/%Y %H:%M:%S'' = Some (new_year 10 45)"
  "demo_strptime (StartTime row_1130) ''%d/%m/%Y %H:%M:%S'' = Some (new_year 11 30)"
  "demo_strptime ''01/01/2030'' ''%d/%m/%Y'' = Some (new_year 0 0)"
  "demo_strptime ''1/1/2030'' ''%d/%m/%Y'' = Some (new_year 0 0)"
  by (simp_all add: demo_strptime_def row_0800_def row_1000_def row_1045_def row_1130_def)

lemma format_times:
  "strftime_HM (new_year 8 0) = ''08:00''"
  "strftime_HM (new_year 10 0) = ''10:00''"
  "strftime_HM (new_year 10 45) = ''10:45''"
  "strftime_HM (new_year 11 30) = ''11:30''"
  by (simp_all add: strftime_HM_def new_year_def two_digits_def digit_char_def)

lemma format_new_year: "strftime_dmY (new_year h m) = ''01/01/2030''"
  by (simp add: strftime_dmY_def new_year_def two_digits_def four_digits_def digit_char_def)

lemma dt_less_new_year:
  "dt_less (new_year h m) (new_year h' m') \<longleftrightarrow> h < h' \<or> (h = h' \<and> m < m')"
  by (simp add: dt_less_def date_less_def same_date_def time_less_def new_year_def)

text \<open>
  The counting loops refine the counts in the words of the specification: the loops
  increment the aligned entry of each hit, and with distinct period ids every aligned
  entry ends with the number of hits of its period.
\<close>

lemma count_slots_fold:
  "count_slots mem_str player_nos idx pids aligned
     = fold increment_count (slot_hits mem_str player_nos idx pids) aligned"
  by (induction pids arbitrary: idx aligned) (simp_all add: slot_hits_def)

lemma count_period_entries_fold:
  "count_period_entries memno b formatted_time period_data aligned
     = fold increment_count (booking_hits memno b formatted_time period_data) aligned"
  by (induction period_data arbitrary: aligned)
     (simp_all add: booking_hits_def count_slots_fold)

lemma weekly_count_fold:
  "weekly_count_bookings strptime memno period_data bookings_data aligned
     = fold increment_count (weekly_hits strptime memno period_data bookings_data) aligned"
  by (induction bookings_data arbitrary: aligned)
     (simp_all add: weekly_hits_def count_period_entries_fold split: option.splits)

lemma daily_count_fold:
  "daily_count_bookings strptime now memno date period_data bookings_data aligned
     = fold increment_count (daily_hits strptime now memno date period_data bookings_data) aligned"
  by (induction bookings_data arbitrary: aligned)
     (simp_all add: daily_hits_def count_period_entries_fold
        split: option.splits)

lemma increment_count_ids: "map period_id (increment_count pid aligned) = map period_id aligned"
  by (induction aligned) simp_all

lemma increment_count_distinct:
  "distinct (map period_id aligned) \<Longrightarrow>
   increment_count pid aligned
     = map (\<lambda>l. if period_id l = pid then l\<lparr> bookings_count := bookings_count l + 1 \<rparr> else l) aligned"
proof (induction aligned)
  case Nil
  then show ?case by simp
next
  case (Cons l ls)
  show ?case
  proof (cases "period_id l = pid")
    case True
    with Cons.prems have "pid \<notin> period_id ` set ls" by simp
    then have "\<forall>x \<in> set ls. period_id x \<noteq> pid" by blast
    then have "map (\<lambda>l. if period_id l = pid then l\<lparr> bookings_count := bookings_count l + 1 \<rparr> else l) ls = ls"
      by (intro map_idI) simp
    with True show ?thesis by simp
  next
    case False
    with Cons show ?thesis by simp
  qed
qed

lemma fold_increment_with_counts:
  "distinct (map period_id aligned) \<Longrightarrow> fold increment_count hits aligned = with_counts hits aligned"
proof (induction hits arbitrary: aligned)
  case Nil
  then show ?case by (simp add: with_counts_def)
next
  case (Cons h hs)
  have d: "distinct (map period_id (increment_count h aligned))"
    using Cons.prems by (simp add: increment_count_ids)
  have "fold increment_count (h # hs) aligned = with_counts hs (increment_count h aligned)"
    using Cons.IH [OF d] by simp
  also have "\<dots> = with_counts (h # hs) aligned"
    by (simp add: increment_count_distinct [OF Cons.prems] with_counts_def)
  finally show ?case .
qed

lemma align_limits_ids:
  "map period_id (align_limits limits periods) = take (length limits) (map p_id periods)"
proof -
  have "map period_id (align_limits limits periods) = map (p_id \<circ> snd) (zip limits periods)"
    by (simp add: align_limits_def case_prod_beta comp_def)
  also have "\<dots> = map p_id (map snd (zip limits periods))" by simp
  also have "\<dots> = map p_id (take (length limits) periods)" by (simp only: map_snd_zip_take) (simp add: take_map min_def)
  finally show ?thesis by (simp add: take_map)
qed

lemma exceeded_with_counts:
  "exceeded_periods (with_counts hits (align_limits limits periods)) \<noteq> [] \<longleftrightarrow>
     (\<exists>(cap, p) \<in> set (zip limits periods). int (count_list hits (p_id p)) > cap)"
proof -
  have "exceeded_periods (with_counts hits (align_limits limits periods)) \<noteq> [] \<longleftrightarrow>
      (\<exists>x \<in> set (zip limits periods). int (count_list hits (p_id (snd x))) > fst x)"
    by (simp add: exceeded_periods_def with_counts_def align_limits_def filter_empty_conv
        case_prod_beta Bex_def)
  then show ?thesis by (simp add: case_prod_beta)
qed

lemma demo_limitations:
  "get_booking_limitations 7 demo_db = Some \<lparr> daily_limits = [2], weekly_limits = [4] \<rparr>"
  by (simp add: get_booking_limitations_def demo_db_def demo_member_def positive_values_def)

lemma demo_periods:
  "get_periods demo_db = [\<lparr> p_id = 1, p_description = ''NORMAL'', p_color = 255 \<rparr>,
                          \<lparr> p_id = 2, p_description = ''PEAK'', p_color = 65280 \<rparr>]"
  by (simp add: get_periods_def demo_db_def)

lemma demo_aligned: "align_limits [2] (get_periods demo_db) = [normal_limit 0]"
  by (simp add: demo_periods align_limits_def normal_limit_def)

lemma daily_two_rows:
  "daily_count_bookings demo_strptime (new_year 0 0) 7 ''01/01/2030'' demo_period_data
     [row_1000, row_1045] [normal_limit 0] = [normal_limit 2]"
  by (simp add: parse_rows format_times format_new_year dt_less_new_year count_row_1000 count_row_1045)

lemma daily_three_rows:
  "daily_count_bookings demo_strptime (new_year 0 0) 7 ''01/01/2030'' demo_period_data
     [row_1000, row_1045, row_1130] [normal_limit 0] = [normal_limit 3]"
  by (simp add: parse_rows format_times format_new_year dt_less_new_year count_row_1000 count_row_1045
      count_row_1130)

text \<open>
  C5, as stated, fails. Member 7 has the daily cap 2 for period 1 and two bookings in
  period 1 on the checked date, neither of them elapsed: the daily check answers that
  the limit is within bounds, with the count 2.
\<close>

theorem two_bookings_at_cap_two_within_bounds_counterexample:
  "get_booking_limitations 7 demo_db = Some \<lparr> daily_limits = [2], weekly_limits = [4] \<rparr>
   \<and> check_daily_booking_limits demo_strptime (new_year 0 0) (Some 7) (Some ''01/01/2030'')
        [row_1000, row_1045] demo_period_data demo_db
      = Within_bounds [\<lparr> limit = 2, period_id = 1, period_description = ''NORMAL'', bookings_count = 2 \<rparr>]"
proof -
  have al: "align_limits (daily_limits \<lparr> daily_limits = [2], weekly_limits = [4] \<rparr>) (get_periods demo_db)
      = [normal_limit 0]" by (simp add: demo_aligned)
  have "check_daily_booking_limits demo_strptime (new_year 0 0) (Some 7) (Some ''01/01/2030'')
        [row_1000, row_1045] demo_period_data demo_db =
     (let a = daily_count_bookings demo_strptime (new_year 0 0) 7 ''01/01/2030'' demo_period_data
                [row_1000, row_1045]
                (align_limits (daily_limits \<lparr> daily_limits = [2], weekly_limits = [4] \<rparr>)
                   (get_periods demo_db))
      in if exceeded_periods a \<noteq> [] then Limit_exceeded a else Within_bounds a)"
    unfolding check_daily_booking_limits_def
    by (simp add: parse_rows demo_limitations del: daily_count_bookings.simps)
  then have "check_daily_booking_limits demo_strptime (new_year 0 0) (Some 7) (Some ''01/01/2030'')
        [row_1000, row_1045] demo_period_data demo_db = Within_bounds [normal_limit 2]"
    unfolding al daily_two_rows Let_def by (simp add: exceeded_periods_def normal_limit_def)
  then show ?thesis using demo_limitations by (simp add: normal_limit_def)
qed

text \<open>
  C5, amended. When the check reaches the comparison (a logged-in member, a valid date,
  some booking row of the date, some daily cap) and the period ids are distinct, it
  answers that the limit is exceeded exactly when some period with an aligned cap has
  more counted bookings of the member than its cap; so a cap of 2 admits 2 bookings and
  is exceeded by the third. Every aligned entry carries the count of its period.
  Bookings in a period without an aligned cap never enter the comparison.
\<close>

theorem daily_limit_exceeded_iff_count_above_cap:
  assumes mem: "memno \<noteq> 0"
    and date: "date \<noteq> []" "strptime date ''%d/%m/%Y'' \<noteq> None"
    and rows: "bookings_data \<noteq> []"
    and lims: "get_booking_limitations memno db = Some lims" "daily_limits lims \<noteq> []"
    and ids: "distinct (map p_id (get_periods db))"
  shows "check_daily_booking_limits strptime now (Some memno) (Some date) bookings_data period_data db =
     (let hits = daily_hits strptime now memno date period_data bookings_data;
          counted = with_counts hits (align_limits (daily_limits lims) (get_periods db))
      in if \<exists>(cap, p) \<in> set (zip (daily_limits lims) (get_periods db)).
              int (count_list hits (p_id p)) > cap
         then Limit_exceeded counted else Within_bounds counted)"
proof -
  let ?al = "align_limits (daily_limits lims) (get_periods db)"
  let ?hits = "daily_hits strptime now memno date period_data bookings_data"
  have d: "distinct (map period_id ?al)"
    using ids by (simp add: align_limits_ids distinct_take)
  have c: "daily_count_bookings strptime now memno date period_data bookings_data ?al
             = with_counts ?hits ?al"
    by (simp add: daily_count_fold fold_increment_with_counts [OF d])
  have "check_daily_booking_limits strptime now (Some memno) (Some date) bookings_data period_data db =
     (if exceeded_periods (with_counts ?hits ?al) \<noteq> []
      then Limit_exceeded (with_counts ?hits ?al) else Within_bounds (with_counts ?hits ?al))"
    using mem date rows lims by (simp add: check_daily_booking_limits_def c Let_def)
  then show ?thesis by (simp only: exceeded_with_counts Let_def)
qed

lemma hits_of_rows:
  "booking_hits 7 row_1000 ''10:00'' demo_period_data = [1]"
  "booking_hits 7 row_1045 ''10:45'' demo_period_data = [1]"
  "booking_hits 7 row_1130 ''11:30'' demo_period_data = [1]"
  by (simp_all add: booking_hits_def slot_hits_def demo_period_data_def row_1000_def row_1045_def
      row_1130_def strip_tokens str_int_7)

lemma demo_hits_three:
  "daily_hits demo_strptime (new_year 0 0) 7 ''01/01/2030'' demo_period_data
     [row_1000, row_1045, row_1130] = [1, 1, 1]"
  by (simp add: daily_hits_def parse_rows dt_less_new_year format_times hits_of_rows)

theorem daily_limit_exceeded_iff_count_above_cap_witness:
  "check_daily_booking_limits demo_strptime (new_year 0 0) (Some 7) (Some ''01/01/2030'')
      [row_1000, row_1045, row_1130] demo_period_data demo_db
    = Limit_exceeded [\<lparr> limit = 2, period_id = 1, period_description = ''NORMAL'', bookings_count = 3 \<rparr>]"
proof -
  have mem: "(7::int) \<noteq> 0" by simp
  have d1: "''01/01/2030'' \<noteq> []" by simp
  have d2: "demo_strptime ''01/01/2030'' ''%d/%m/%Y'' \<noteq> None" by (simp add: parse_rows)
  have rows: "[row_1000, row_1045, row_1130] \<noteq> []" by simp
  have nonempty: "daily_limits \<lparr> daily_limits = [2], weekly_limits = [4] \<rparr> \<noteq> []" by simp
  have ids: "distinct (map p_id (get_periods demo_db))" by (simp add: demo_periods)
  have counted: "with_counts [1, 1, 1] [normal_limit 0] = [normal_limit 3]"
    by (simp add: with_counts_def normal_limit_def)
  have al: "align_limits (daily_limits \<lparr> daily_limits = [2], weekly_limits = [4] \<rparr>) (get_periods demo_db)
      = [normal_limit 0]" by (simp add: demo_aligned)
  have over: "\<exists>(cap, p) \<in> set (zip (daily_limits \<lparr> daily_limits = [2], weekly_limits = [4] \<rparr>)
                               (get_periods demo_db)). int (count_list [1, 1, 1] (p_id p)) > cap"
    by (simp add: demo_periods)
  have "check_daily_booking_limits demo_strptime (new_year 0 0) (Some 7) (Some ''01/01/2030'')
      [row_1000, row_1045, row_1130] demo_period_data demo_db = Limit_exceeded [normal_limit 3]"
    using daily_limit_exceeded_iff_count_above_cap [where memno = 7 and date = "''01/01/2030''"
        and strptime = demo_strptime and bookings_data = "[row_1000, row_1045, row_1130]"
        and db = demo_db and lims = "\<lparr> daily_limits = [2], weekly_limits = [4] \<rparr>"
        and now = "new_year 0 0" and period_data = demo_period_data,
        OF mem d1 d2 rows demo_limitations nonempty ids]
    unfolding demo_hits_three al counted Let_def using over by simp
  then show ?thesis by (simp add: normal_limit_def)
qed

lemma row_0800_is_today_and_past:
  "Date row_0800 = strftime_dmY nine_o_clock"
  "dt_less (new_year 8 0) nine_o_clock"
  "\<not> dt_less (new_year 10 0) nine_o_clock"
  by (simp_all add: row_0800_def nine_o_clock_def format_new_year dt_less_new_year)

lemma daily_count_unpadded:
  "daily_count_bookings demo_strptime nine_o_clock 7 ''1/1/2030'' demo_period_data
     [row_0800, row_1000] [normal_limit 0] = [normal_limit 2]"
  by (simp add: parse_rows format_times nine_o_clock_def format_new_year count_row_0800 count_row_1000)

lemma daily_count_padded:
  "daily_count_bookings demo_strptime nine_o_clock 7 ''01/01/2030'' demo_period_data
     [row_0800, row_1000] [normal_limit 0] = [normal_limit 1]"
  by (simp add: parse_rows format_times nine_o_clock_def format_new_year dt_less_new_year count_row_1000)

text \<open>
  The weekly loop counts the row of 08:00 and the row of 10:00 alike, whatever the
  current time.
\<close>

lemma weekly_count_two_rows:
  "weekly_count_bookings demo_strptime 7 demo_period_data [row_0800, row_1000] [normal_limit 0]
     = [normal_limit 2]"
  by (simp add: parse_rows format_times count_row_0800 count_row_1000)

text \<open>
  C7 on the code. At nine o'clock on 1 January 2030 the row of 08:00 has the current
  date and a start time before the current time. The request \<open>date=1/1/2030\<close> passes
  the validation and names the same day as \<open>01/01/2030\<close>, but the skip test compares
  the text of the request with today's date written \<open>dd/mm/yyyy\<close>: the daily check
  counts the elapsed row (count 2). For the request \<open>date=01/01/2030\<close> it leaves the
  row out (count 1).
\<close>

theorem unpadded_today_counts_elapsed_row:
  "Date row_0800 = strftime_dmY nine_o_clock
   \<and> demo_strptime (StartTime row_0800) ''%d/%m/%Y %H:%M:%S'' = Some (new_year 8 0)
   \<and> dt_less (new_year 8 0) nine_o_clock
   \<and> demo_strptime ''1/1/2030'' ''%d/%m/%Y'' = demo_strptime ''01/01/2030'' ''%d/%m/%Y''
   \<and> check_daily_booking_limits demo_strptime nine_o_clock (Some 7) (Some ''1/1/2030'')
        [row_0800, row_1000] demo_period_data demo_db
      = Within_bounds [\<lparr> limit = 2, period_id = 1, period_description = ''NORMAL'', bookings_count = 2 \<rparr>]
   \<and> check_daily_booking_limits demo_strptime nine_o_clock (Some 7) (Some ''01/01/2030'')
        [row_0800, row_1000] demo_period_data demo_db
      = Within_bounds [\<lparr> limit = 2, period_id = 1, period_description = ''NORMAL'', bookings_count = 1 \<rparr>]"
proof -
  have al: "align_limits (daily_limits \<lparr> daily_limits = [2], weekly_limits = [4] \<rparr>) (get_periods demo_db)
      = [normal_limit 0]" by (simp add: demo_aligned)
  have shape: "check_daily_booking_limits demo_strptime nine_o_clock (Some 7) (Some d)
        [row_0800, row_1000] demo_period_data demo_db =
     (let a = daily_count_bookings demo_strptime nine_o_clock 7 d demo_period_data
                [row_0800, row_1000]
                (align_limits (daily_limits \<lparr> daily_limits = [2], weekly_limits = [4] \<rparr>)
                   (get_periods demo_db))
      in if exceeded_periods a \<noteq> [] then Limit_exceeded a else Within_bounds a)"
    if "d \<noteq> []" "demo_strptime d ''%d/%m/%Y'' \<noteq> None" for d
    unfolding check_daily_booking_limits_def using that
    by (auto simp add: demo_limitations simp del: daily_count_bookings.simps)
  have u: "check_daily_booking_limits demo_strptime nine_o_clock (Some 7) (Some ''1/1/2030'')
        [row_0800, row_1000] demo_period_data demo_db = Within_bounds [normal_limit 2]"
    using shape [of "''1/1/2030''"]
    unfolding al daily_count_unpadded Let_def
    by (simp add: parse_rows exceeded_periods_def normal_limit_def)
  have p: "check_daily_booking_limits demo_strptime nine_o_clock (Some 7) (Some ''01/01/2030'')
        [row_0800, row_1000] demo_period_data demo_db = Within_bounds [normal_limit 1]"
    using shape [of "''01/01/2030''"]
    unfolding al daily_count_padded Let_def
    by (simp add: parse_rows exceeded_periods_def normal_limit_def)
  show ?thesis
    using u p row_0800_is_today_and_past by (simp add: parse_rows normal_limit_def)
qed

end
